theory Spec2Isabelle
  imports Main
begin

section \<open>The plugin registry of the Cheshire Cat (class MadHatter)\<close>

text \<open>
  A shallow embedding of \<^verbatim>\<open>cat/mad_hatter/mad_hatter.py\<close> and of
  \<^verbatim>\<open>cat/routes/static/auth_static.py\<close>. Every exception the Python code can raise
  is a value of the type \<open>error\<close>; a method that may raise returns \<open>error + 'a\<close>,
  with \<open>Inl\<close> for the exception.
\<close>

datatype error =
    Exception string  \<comment> \<open>\<^verbatim>\<open>raise Exception(message)\<close>\<close>
  | KeyError string
  | TypeError
  | AttributeError
  | IndexError
  | JSONDecodeError
  | ImportError
  | AssertionError
  | FileNotFoundError string
  | NotADirectoryError string
  | HTTPException nat

subsection \<open>Hooks and \<^verbatim>\<open>execute_hook\<close>\<close>

text \<open>
  A hook is the dictionary that the \<^verbatim>\<open>@hook\<close> decorator registers: its name, its
  priority and the wrapped function. The function takes the positional arguments of the
  call and the keyword argument \<^verbatim>\<open>cat\<close>; it returns a value of type \<open>'r\<close> or
  raises an exception.
\<close>

record ('a, 'c, 'r, 'p) hook =
  hook_name :: string
  priority :: 'p
  hook_function :: "'a list \<Rightarrow> 'c \<Rightarrow> error + 'r"

text \<open>
  \<^verbatim>\<open>
  def execute_hook(self, hook_name, *args):
      for h in self.hooks:
          if hook_name == h["hook_name"]:
              hook = h["hook_function"]
              return hook(*args, cat=self.ccat)
      raise Exception(f"Hook {hook_name} not present in any plugin")
  \<close>
  What the hook returns is returned, and what it raises goes on to the caller.
\<close>

fun execute_hook ::
  "('a, 'c, 'r, 'p) hook list \<Rightarrow> 'c \<Rightarrow> string \<Rightarrow> 'a list \<Rightarrow> error + 'r" where
  "execute_hook [] ccat name args =
     Inl (Exception (''Hook '' @ name @ '' not present in any plugin''))"
| "execute_hook (h # hs) ccat name args =
     (if name = hook_name h then hook_function h args ccat
      else execute_hook hs ccat name args)"

text \<open>
  The calls of hook functions that \<^verbatim>\<open>execute_hook\<close> makes: the same loop, recording
  each call \<^verbatim>\<open>hook(*args, cat=self.ccat)\<close> (the hook called, the positional arguments
  and the keyword argument \<^verbatim>\<open>cat\<close>) in place of making it.
\<close>

fun execute_hook_calls ::
  "('a, 'c, 'r, 'p) hook list \<Rightarrow> 'c \<Rightarrow> string \<Rightarrow> 'a list \<Rightarrow>
   (('a, 'c, 'r, 'p) hook \<times> 'a list \<times> 'c) list" where
  "execute_hook_calls [] ccat name args = []"
| "execute_hook_calls (h # hs) ccat name args =
     (if name = hook_name h then [(h, args, ccat)]
      else execute_hook_calls hs ccat name args)"

subsection \<open>JSON values and files\<close>

text \<open>
  What \<^verbatim>\<open>json.load\<close> returns: \<^verbatim>\<open>None\<close>, a boolean, a number, a string, a list or
  a dictionary with string keys. Numbers are integers here; no property below depends on
  the value of a number.
\<close>

datatype json =
    JNull
  | JBool bool
  | JNum int
  | JStr string
  | JArr "json list"
  | JObj "string \<rightharpoonup> json"

text \<open>
  The state of a path of the file system, as \<^verbatim>\<open>os.path.isfile\<close>, \<^verbatim>\<open>open\<close> and
  \<^verbatim>\<open>json.load\<close> see it: no file there, a file that is not JSON text, or a file
  holding the text of a JSON value.
\<close>

datatype json_file = NoFile | Unparseable | Document json

type_synonym files = "string \<Rightarrow> json_file"

fun isfile :: "json_file \<Rightarrow> bool" where
  "isfile NoFile = False"
| "isfile Unparseable = True"
| "isfile (Document j) = True"

text \<open>\<^verbatim>\<open>json.load(open(path))\<close>, and the same with mode \<^verbatim>\<open>'r+'\<close>.\<close>

fun json_load :: "string \<Rightarrow> json_file \<Rightarrow> error + json" where
  "json_load path NoFile = Inl (FileNotFoundError path)"
| "json_load path Unparseable = Inl JSONDecodeError"
| "json_load path (Document j) = Inr j"

text \<open>\<^verbatim>\<open>needle in text\<close> for two strings: \<^verbatim>\<open>needle\<close> occurs in \<^verbatim>\<open>text\<close>.\<close>

fun occurs_in :: "string \<Rightarrow> string \<Rightarrow> bool" where
  "occurs_in needle [] = (needle = [])"
| "occurs_in needle (c # cs) =
     (take (length needle) (c # cs) = needle \<or> occurs_in needle cs)"

text \<open>
  \<^verbatim>\<open>key in value\<close> for a string \<^verbatim>\<open>key\<close>: a key of a dictionary, an element of a
  list, a part of a string; \<^verbatim>\<open>TypeError\<close> for a value that is not iterable.
\<close>

fun py_contains :: "string \<Rightarrow> json \<Rightarrow> error + bool" where
  "py_contains key (JObj m) = Inr (m key \<noteq> None)"
| "py_contains key (JArr xs) = Inr (JStr key \<in> set xs)"
| "py_contains key (JStr text) = Inr (occurs_in key text)"
| "py_contains key JNull = Inl TypeError"
| "py_contains key (JBool b) = Inl TypeError"
| "py_contains key (JNum n) = Inl TypeError"

text \<open>
  \<^verbatim>\<open>value[key] = v\<close> for a string \<^verbatim>\<open>key\<close>: only a dictionary accepts it.
\<close>

fun py_setitem :: "json \<Rightarrow> string \<Rightarrow> json \<Rightarrow> error + json" where
  "py_setitem (JObj m) key v = Inr (JObj (m(key \<mapsto> v)))"
| "py_setitem (JArr xs) key v = Inl TypeError"
| "py_setitem (JStr text) key v = Inl TypeError"
| "py_setitem JNull key v = Inl TypeError"
| "py_setitem (JBool b) key v = Inl TypeError"
| "py_setitem (JNum n) key v = Inl TypeError"

text \<open>\<^verbatim>\<open>value.get(key, default)\<close>: only a dictionary has the method.\<close>

fun py_get :: "json \<Rightarrow> string \<Rightarrow> json \<Rightarrow> error + json" where
  "py_get (JObj m) key dflt =
     Inr (case m key of None \<Rightarrow> dflt | Some v \<Rightarrow> v)"
| "py_get (JArr xs) key dflt = Inl AttributeError"
| "py_get (JStr text) key dflt = Inl AttributeError"
| "py_get JNull key dflt = Inl AttributeError"
| "py_get (JBool b) key dflt = Inl AttributeError"
| "py_get (JNum n) key dflt = Inl AttributeError"

text \<open>
  \<^verbatim>\<open>**value\<close> inside a dictionary display: the items of a dictionary; \<^verbatim>\<open>TypeError\<close>
  for a value that is not a mapping.
\<close>

fun py_unpack :: "json \<Rightarrow> error + (string \<rightharpoonup> json)" where
  "py_unpack (JObj m) = Inr m"
| "py_unpack (JArr xs) = Inl TypeError"
| "py_unpack (JStr text) = Inl TypeError"
| "py_unpack JNull = Inl TypeError"
| "py_unpack (JBool b) = Inl TypeError"
| "py_unpack (JNum n) = Inl TypeError"

subsection \<open>Paths\<close>

text \<open>
  \<^verbatim>\<open>os.path.join\<close> (posixpath): a component that starts with a slash replaces what
  came before it; otherwise it is appended, after a slash unless the path so far is empty
  or ends with one.
\<close>

fun join_step :: "string \<Rightarrow> string \<Rightarrow> string" where
  "join_step path [] = (if path = [] \<or> last path = CHR ''/'' then path else path @ ''/'')"
| "join_step path (c # cs) =
     (if c = CHR ''/'' then c # cs
      else if path = [] \<or> last path = CHR ''/'' then path @ c # cs
      else path @ ''/'' @ c # cs)"

definition path_join :: "string \<Rightarrow> string list \<Rightarrow> string" where
  "path_join a ps = fold (\<lambda>b path. join_step path b) ps a"

text \<open>\<^verbatim>\<open>path.split('/')\<close>.\<close>

fun split_slash :: "string \<Rightarrow> string list" where
  "split_slash [] = [[]]"
| "split_slash (c # cs) =
     (if c = CHR ''/'' then [] # split_slash cs
      else (case split_slash cs of [] \<Rightarrow> [[c]] | w # ws \<Rightarrow> (c # w) # ws))"

text \<open>\<^verbatim>\<open>'/'.join(comps)\<close>.\<close>

fun join_slash :: "string list \<Rightarrow> string" where
  "join_slash [] = []"
| "join_slash [w] = w"
| "join_slash (w # v # ws) = w @ ''/'' @ join_slash (v # ws)"

text \<open>
  \<^verbatim>\<open>os.path.normpath\<close> (posixpath): empty components and \<^verbatim>\<open>.\<close> are dropped, a
  \<^verbatim>\<open>..\<close> removes the component before it; one leading slash is kept, exactly two are
  kept as two.
\<close>

definition norm_step :: "nat \<Rightarrow> string list \<Rightarrow> string \<Rightarrow> string list" where
  "norm_step initial_slashes new_comps part =
     (if part = [] \<or> part = ''.'' then new_comps
      else if part \<noteq> ''..'' \<or> (initial_slashes = 0 \<and> new_comps = []) \<or>
              (new_comps \<noteq> [] \<and> last new_comps = ''..'')
           then new_comps @ [part]
      else if new_comps \<noteq> [] then butlast new_comps
      else new_comps)"

definition normpath :: "string \<Rightarrow> string" where
  "normpath path =
     (if path = [] then ''.''
      else
        let initial_slashes =
              (if take 1 path = ''/''
               then (if take 2 path = ''//'' \<and> take 3 path \<noteq> ''///'' then 2 else 1)
               else (0::nat));
            comps = fold (\<lambda>part new_comps. norm_step initial_slashes new_comps part)
                      (split_slash path) [];
            joined = replicate initial_slashes CHR ''/'' @ join_slash comps
        in if joined = [] then ''.'' else joined)"

text \<open>\<^verbatim>\<open>os.path.basename\<close>: what follows the last slash.\<close>

definition basename :: "string \<Rightarrow> string" where
  "basename path = rev (takeWhile (\<lambda>c. c \<noteq> CHR ''/'') (rev path))"

subsection \<open>Plugin settings\<close>

definition settings_path :: "string \<Rightarrow> string" where
  "settings_path plugin_id = path_join ''cat/plugins'' [plugin_id, ''settings.json'']"

text \<open>
  \<^verbatim>\<open>
  def get_plugin_settings(self, plugin_id: str):
      settings_file_path = os.path.join("cat/plugins", plugin_id, "settings.json")
      settings = { "active": False }
      if os.path.isfile(settings_file_path):
          try:
              json_file = open(settings_file_path)
              settings = json.load(json_file)
              if "active" not in settings:
                  settings["active"] = False
              json_file.close()
          except Exception:
              log(...)
      return settings
  \<close>
  Once \<^verbatim>\<open>json.load\<close> has returned, \<^verbatim>\<open>settings\<close> is the loaded value: an exception
  raised after that leaves it so.
\<close>

definition get_plugin_settings :: "files \<Rightarrow> string \<Rightarrow> json" where
  "get_plugin_settings fs plugin_id =
     (let settings_file_path = settings_path plugin_id;
          settings = JObj [''active'' \<mapsto> JBool False]
      in if isfile (fs settings_file_path) then
           (case json_load settings_file_path (fs settings_file_path) of
              Inl e \<Rightarrow> settings
            | Inr loaded \<Rightarrow>
                (case py_contains ''active'' loaded of
                   Inl e \<Rightarrow> loaded
                 | Inr True \<Rightarrow> loaded
                 | Inr False \<Rightarrow>
                     (case py_setitem loaded ''active'' (JBool False) of
                        Inl e \<Rightarrow> loaded
                      | Inr updated \<Rightarrow> updated)))
         else settings)"

text \<open>
  \<^verbatim>\<open>
  def save_plugin_settings(self, plugin_id: str, settings: Dict):
      settings_file_path = os.path.join("cat/plugins", plugin_id, "settings.json")
      updated_settings = settings
      try:
          json_file = open(settings_file_path, 'r+')
          current_settings = json.load(json_file)
          json_file.close()
          updated_settings = { **current_settings, **settings }
          json_file = open(settings_file_path, 'w')
          json.dump(updated_settings, json_file, indent=4)
          json_file.close()
      except Exception:
          log(...)
      return updated_settings
  \<close>
  The payload is a dictionary with string keys and JSON values. The function returns
  \<^verbatim>\<open>updated_settings\<close>; the second component is the file system it leaves. Writing a
  file that has just been opened for update succeeds.
\<close>

definition save_plugin_settings ::
  "files \<Rightarrow> string \<Rightarrow> (string \<rightharpoonup> json) \<Rightarrow> (string \<rightharpoonup> json) \<times> files" where
  "save_plugin_settings fs plugin_id settings =
     (let settings_file_path = settings_path plugin_id in
      case json_load settings_file_path (fs settings_file_path) of
        Inl e \<Rightarrow> (settings, fs)
      | Inr current_settings \<Rightarrow>
          (case py_unpack current_settings of
             Inl e \<Rightarrow> (settings, fs)
           | Inr current \<Rightarrow>
               (let updated_settings = current ++ settings
                in (updated_settings,
                    fs(settings_file_path := Document (JObj updated_settings))))))"

text \<open>The keys of a stored document and their values: none unless it is a dictionary.\<close>

fun items :: "json \<Rightarrow> (string \<rightharpoonup> json)" where
  "items (JObj m) = m"
| "items (JArr xs) = Map.empty"
| "items (JStr text) = Map.empty"
| "items JNull = Map.empty"
| "items (JBool b) = Map.empty"
| "items (JNum n) = Map.empty"

subsection \<open>Plugin metadata\<close>

text \<open>The rest of a computation that may have raised.\<close>

definition and_then :: "error + 'a \<Rightarrow> ('a \<Rightarrow> error + 'b) \<Rightarrow> error + 'b" where
  "and_then r f = (case r of Inl e \<Rightarrow> Inl e | Inr v \<Rightarrow> f v)"

text \<open>
  \<^verbatim>\<open>
  def get_plugin_metadata(self, plugin_folder: str):
      plugin_id = os.path.basename(os.path.normpath(plugin_folder))
      plugin_json_metadata_file_name = "plugin.json"
      plugin_json_metadata_file_path = os.path.join(plugin_folder, plugin_json_metadata_file_name)
      meta = {"id": plugin_id}
      json_file_data = {}
      if os.path.isfile(plugin_json_metadata_file_path):
          try:
              json_file = open(plugin_json_metadata_file_path)
              json_file_data = json.load(json_file)
              json_file.close()
          except Exception:
              log(...)
      meta["name"] = json_file_data.get("name", to_camel_case(plugin_id))
      meta["description"] = json_file_data.get("description", (
          "Description not found for this plugin. "
          f"Please create a `{plugin_json_metadata_file_name}`"
          " in the plugin folder."
      ))
      meta["author_name"] = json_file_data.get("author_name", "Unknown author")
      meta["author_url"] = json_file_data.get("author_url", "")
      meta["plugin_url"] = json_file_data.get("plugin_url", "")
      meta["tags"] = json_file_data.get("tags", "unknown")
      meta["thumb"] = json_file_data.get("thumb", "")
      meta["version"] = json_file_data.get("version", "0.0.1")
      return meta
  \<close>
  \<^verbatim>\<open>to_camel_case\<close> comes from \<^verbatim>\<open>cat.utils\<close>; it is a parameter here.
\<close>

definition get_plugin_metadata ::
  "(string \<Rightarrow> string) \<Rightarrow> files \<Rightarrow> string \<Rightarrow> error + (string \<rightharpoonup> json)" where
  "get_plugin_metadata to_camel_case fs plugin_folder =
     (let plugin_id = basename (normpath plugin_folder);
          plugin_json_metadata_file_name = ''plugin.json'';
          plugin_json_metadata_file_path =
            path_join plugin_folder [plugin_json_metadata_file_name];
          meta = [''id'' \<mapsto> JStr plugin_id];
          json_file_data =
            (if isfile (fs plugin_json_metadata_file_path) then
               (case json_load plugin_json_metadata_file_path
                       (fs plugin_json_metadata_file_path) of
                  Inl e \<Rightarrow> JObj Map.empty
                | Inr loaded \<Rightarrow> loaded)
             else JObj Map.empty)
      in
      and_then (py_get json_file_data ''name'' (JStr (to_camel_case plugin_id))) (\<lambda>name.
      and_then (py_get json_file_data ''description''
         (JStr (''Description not found for this plugin. '' @
                ''Please create a `'' @ plugin_json_metadata_file_name @ ''`'' @
                '' in the plugin folder.''))) (\<lambda>description.
      and_then (py_get json_file_data ''author_name'' (JStr ''Unknown author'')) (\<lambda>author_name.
      and_then (py_get json_file_data ''author_url'' (JStr '''')) (\<lambda>author_url.
      and_then (py_get json_file_data ''plugin_url'' (JStr '''')) (\<lambda>plugin_url.
      and_then (py_get json_file_data ''tags'' (JStr ''unknown'')) (\<lambda>tags.
      and_then (py_get json_file_data ''thumb'' (JStr '''')) (\<lambda>thumb.
      and_then (py_get json_file_data ''version'' (JStr ''0.0.1'')) (\<lambda>version.
      Inr (meta(''name'' \<mapsto> name, ''description'' \<mapsto> description,
                ''author_name'' \<mapsto> author_name, ''author_url'' \<mapsto> author_url,
                ''plugin_url'' \<mapsto> plugin_url, ''tags'' \<mapsto> tags,
                ''thumb'' \<mapsto> thumb, ''version'' \<mapsto> version)))))))))))"


subsection \<open>The authenticated static files (class AuthStatic)\<close>

text \<open>
  An ASGI connection scope: its type (\<^verbatim>\<open>http\<close>, \<^verbatim>\<open>websocket\<close>, \<^verbatim>\<open>lifespan\<close>), the
  request path and the headers, a list of name and value in the order received.
\<close>

record scope =
  scope_type :: string
  path :: string
  headers :: "(string \<times> string) list"

text \<open>
  \<^verbatim>\<open>Request(scope, receive=receive)\<close>: the constructor asserts that the scope is that of
  an HTTP connection (\<^verbatim>\<open>assert scope["type"] == "http"\<close>).
\<close>

definition Request :: "scope \<Rightarrow> error + scope" where
  "Request sc = (if scope_type sc = ''http'' then Inr sc else Inl AssertionError)"

text \<open>\<^verbatim>\<open>request.headers.get(name)\<close>: the value of the first header of that name.\<close>

definition headers_get :: "scope \<Rightarrow> string \<Rightarrow> string option" where
  "headers_get request name = map_of (headers request) name"

text \<open>What the application does, in order: it checks a key, it serves a static file.\<close>

datatype event = CheckApiKey "string option" | StaticFiles scope

text \<open>
  \<^verbatim>\<open>
  async def __call__(self, scope, receive, send) -> None:
      reqeust = Request(scope, receive=receive)
      check_api_key(reqeust.headers.get("access_token"))
      await super().__call__(scope, receive, send)
  \<close>
  \<^verbatim>\<open>check_api_key\<close> comes from \<^verbatim>\<open>cat.api_auth\<close> and the parent class is
  \<^verbatim>\<open>fastapi.staticfiles.StaticFiles\<close>: both are parameters, and either may raise. The
  result is what the call returns or raises, with the events that have taken place.
\<close>

definition auth_static_call ::
  "(string option \<Rightarrow> error + 'k) \<Rightarrow> (scope \<Rightarrow> error + 'r) \<Rightarrow> scope \<Rightarrow>
   event list \<times> (error + 'r)" where
  "auth_static_call check_api_key static_files sc =
     (case Request sc of
        Inl e \<Rightarrow> ([], Inl e)
      | Inr reqeust \<Rightarrow>
          (case check_api_key (headers_get reqeust ''access_token'') of
             Inl e \<Rightarrow> ([CheckApiKey (headers_get reqeust ''access_token'')], Inl e)
           | Inr key \<Rightarrow>
               ([CheckApiKey (headers_get reqeust ''access_token''), StaticFiles sc],
                static_files sc)))"


subsection \<open>Tools and the vector store\<close>

text \<open>
  A tool as \<^verbatim>\<open>embed_tools\<close> sees it: its name, its description, its docstring and
  its embedding, which is \<^verbatim>\<open>None\<close> until one is assigned. An embedding is a vector of
  the embedder's dimension; its components play no role, so a vector is a value of an
  arbitrary type \<open>'v\<close>, and the test \<^verbatim>\<open>not tool.embedding\<close> is the test for
  \<^verbatim>\<open>None\<close>.
\<close>

record 'v tool =
  name :: string
  description :: string
  docstring :: string
  embedding :: "'v option"

text \<open>
  A point of the collection \<^verbatim>\<open>procedural\<close>: the id the store gave it, its payload (the
  embedded text under \<^verbatim>\<open>page_content\<close>, and the metadata) and its vector. Every
  point has a \<^verbatim>\<open>page_content\<close> and a vector: \<^verbatim>\<open>add_texts\<close>, which alone writes to
  the collection, sets both.
\<close>

record payload =
  page_content :: string
  metadata :: "string \<rightharpoonup> json"

record 'v point =
  point_id :: nat
  payload :: payload
  vector :: 'v

text \<open>The calls that reach the vector store.\<close>

datatype store_call =
    GetAllPoints
  | Delete "nat list"
  | AddTexts "string list"
  | Retrieve "nat list"

text \<open>The vector memory: the points of the collection, and the calls made so far.\<close>

record 'v memory =
  points :: "'v point list"
  calls :: "store_call list"

text \<open>
  Modelled from the spec: the vector store is a collaborator outside
  \<^verbatim>\<open>mad_hatter.py\<close>, with the contract \<^verbatim>\<open>listAll\<close>, \<^verbatim>\<open>deleteMany\<close>,
  \<^verbatim>\<open>addTexts\<close> and \<^verbatim>\<open>retrieveWithVectors\<close>. It lists its points in the order of
  their insertion, deletes the points whose id is among those given, stores a text under
  an id that no point has, with the vector the embedder computes for it, and retrieves
  the points whose id is among those given.
\<close>

definition get_all_points :: "'v memory \<Rightarrow> 'v point list \<times> 'v memory" where
  "get_all_points mem = (points mem, mem\<lparr>calls := calls mem @ [GetAllPoints]\<rparr>)"

definition delete_points :: "nat list \<Rightarrow> 'v memory \<Rightarrow> 'v memory" where
  "delete_points points_selector mem =
     mem\<lparr>points := filter (\<lambda>p. point_id p \<notin> set points_selector) (points mem),
         calls := calls mem @ [Delete points_selector]\<rparr>"

definition fresh_id :: "'v point list \<Rightarrow> nat" where
  "fresh_id ps = Suc (fold max (map point_id ps) 0)"

fun store_texts ::
  "(string \<Rightarrow> 'v) \<Rightarrow> string list \<Rightarrow> (string \<rightharpoonup> json) list \<Rightarrow> 'v point list \<Rightarrow>
   nat list \<times> 'v point list" where
  "store_texts embedder [] metadatas ps = ([], ps)"
| "store_texts embedder (text # texts) metadatas ps =
     (let new_id = fresh_id ps;
          new_point = \<lparr>point_id = new_id,
                       payload = \<lparr>page_content = text,
                                  metadata = (case metadatas of [] \<Rightarrow> Map.empty | m # ms \<Rightarrow> m)\<rparr>,
                       vector = embedder text\<rparr>;
          (ids, ps') = store_texts embedder texts (tl metadatas) (ps @ [new_point])
      in (new_id # ids, ps'))"

definition add_texts ::
  "(string \<Rightarrow> 'v) \<Rightarrow> string list \<Rightarrow> (string \<rightharpoonup> json) list \<Rightarrow> 'v memory \<Rightarrow>
   nat list \<times> 'v memory" where
  "add_texts embedder texts metadatas mem =
     (let (ids, ps) = store_texts embedder texts metadatas (points mem)
      in (ids, mem\<lparr>points := ps, calls := calls mem @ [AddTexts texts]\<rparr>))"

definition retrieve :: "nat list \<Rightarrow> 'v memory \<Rightarrow> 'v point list \<times> 'v memory" where
  "retrieve ids mem =
     (filter (\<lambda>p. point_id p \<in> set ids) (points mem),
      mem\<lparr>calls := calls mem @ [Retrieve ids]\<rparr>)"

subsection \<open>\<^verbatim>\<open>embed_tools\<close>\<close>

text \<open>
  \<^verbatim>\<open>plugins_tools_index = {t.description: t for t in self.tools}\<close>. The dictionary
  holds references to the tools of the list; a reference is the position of the tool in
  the list. Of two tools with one description, the later one stays in the dictionary.
\<close>

definition plugins_tools_index :: "'v tool list \<Rightarrow> (string \<rightharpoonup> nat)" where
  "plugins_tools_index tools =
     fold (\<lambda>(i, t) index. index(description t \<mapsto> i)) (enumerate 0 tools) Map.empty"

text \<open>
  The body of the \<^verbatim>\<open>try\<close>:
  \<^verbatim>\<open>
  tool_description = record.payload["page_content"]
  plugins_tools_index[tool_description].embedding = record.vector
  \<close>
  It raises \<^verbatim>\<open>KeyError\<close> when no tool has the description.
\<close>

definition assign_embedding ::
  "(string \<rightharpoonup> nat) \<Rightarrow> 'v point \<Rightarrow> 'v tool list \<Rightarrow> error + 'v tool list" where
  "assign_embedding index record tools =
     (let tool_description = page_content (payload record) in
      case index tool_description of
        None \<Rightarrow> Inl (KeyError tool_description)
      | Some i \<Rightarrow> Inr (tools[i := (tools ! i)\<lparr>embedding := Some (vector record)\<rparr>]))"

text \<open>
  \<^verbatim>\<open>
  for record in all_tools_points:
      try:
          ...
      except Exception as e:
          log(...)
          points_to_be_deleted.append(record.id)
  \<close>
  The loop returns the tools and \<^verbatim>\<open>points_to_be_deleted\<close>.
\<close>

fun assign_embeddings ::
  "(string \<rightharpoonup> nat) \<Rightarrow> 'v point list \<Rightarrow> 'v tool list \<Rightarrow> nat list \<Rightarrow>
   'v tool list \<times> nat list" where
  "assign_embeddings index [] tools points_to_be_deleted = (tools, points_to_be_deleted)"
| "assign_embeddings index (record # records) tools points_to_be_deleted =
     (case assign_embedding index record tools of
        Inl e \<Rightarrow>
          assign_embeddings index records tools (points_to_be_deleted @ [point_id record])
      | Inr tools' \<Rightarrow> assign_embeddings index records tools' points_to_be_deleted)"

text \<open>
  \<^verbatim>\<open>
  for tool in self.tools:
      if not tool.embedding:
          ids_inserted = self.ccat.memory.vectors.procedural.add_texts(
              [tool.description],
              [{"source": "tool", "when": time.time(),
                "name": tool.name, "docstring": tool.docstring}])
          records_inserted = vector_db.retrieve(
              collection_name="procedural", ids=ids_inserted, with_vectors=True)
          tool.embedding = records_inserted[0].vector
  \<close>
  \<^verbatim>\<open>records_inserted[0]\<close> raises \<^verbatim>\<open>IndexError\<close> on an empty list. The reading of
  the clock is the parameter \<open>now\<close>.
\<close>

fun embed_missing ::
  "(string \<Rightarrow> 'v) \<Rightarrow> int \<Rightarrow> 'v tool list \<Rightarrow> 'v memory \<Rightarrow>
   error + ('v tool list \<times> 'v memory)" where
  "embed_missing embedder now [] mem = Inr ([], mem)"
| "embed_missing embedder now (tool # tools) mem =
     (if embedding tool = None then
        (let (ids_inserted, mem1) =
               add_texts embedder [description tool]
                 [[''source'' \<mapsto> JStr ''tool'', ''when'' \<mapsto> JNum now,
                   ''name'' \<mapsto> JStr (name tool), ''docstring'' \<mapsto> JStr (docstring tool)]]
                 mem;
             (records_inserted, mem2) = retrieve ids_inserted mem1
         in case records_inserted of
              [] \<Rightarrow> Inl IndexError
            | first # others \<Rightarrow>
                (case embed_missing embedder now tools mem2 of
                   Inl e \<Rightarrow> Inl e
                 | Inr (tools', mem') \<Rightarrow>
                     Inr (tool\<lparr>embedding := Some (vector first)\<rparr> # tools', mem')))
      else
        (case embed_missing embedder now tools mem of
           Inl e \<Rightarrow> Inl e
         | Inr (tools', mem') \<Rightarrow> Inr (tool # tools', mem')))"

text \<open>
  \<^verbatim>\<open>
  def embed_tools(self):
      all_tools_points = self.ccat.memory.vectors.procedural.get_all_points()
      plugins_tools_index = {t.description: t for t in self.tools}
      points_to_be_deleted = []
      vector_db = self.ccat.memory.vectors.vector_db
      for record in all_tools_points: ...
      if len(points_to_be_deleted) > 0:
          vector_db.delete(collection_name="procedural",
                           points_selector=points_to_be_deleted)
      for tool in self.tools: ...
  \<close>
  The state is the list of tools and the vector memory.
\<close>

definition embed_tools ::
  "(string \<Rightarrow> 'v) \<Rightarrow> int \<Rightarrow> 'v tool list \<Rightarrow> 'v memory \<Rightarrow>
   error + ('v tool list \<times> 'v memory)" where
  "embed_tools embedder now tools mem =
     (let (all_tools_points, mem1) = get_all_points mem;
          index = plugins_tools_index tools;
          (tools1, points_to_be_deleted) = assign_embeddings index all_tools_points tools [];
          mem2 = (if length points_to_be_deleted > 0
                  then delete_points points_to_be_deleted mem1 else mem1)
      in embed_missing embedder now tools1 mem2)"


subsection \<open>What \<^verbatim>\<open>embed_tools\<close> leaves behind\<close>

text \<open>
  Names for the parts of the state after a run: the points that the tool loop creates,
  a tool once the tool loop has passed it, the calls a creation makes, the ids of the
  points whose text is no tool's description, the tools after the loop over the points,
  and the points that the deletion leaves.
\<close>

fun created_points ::
  "(string \<Rightarrow> 'v) \<Rightarrow> int \<Rightarrow> 'v tool list \<Rightarrow> 'v point list \<Rightarrow> 'v point list" where
  "created_points embedder now [] ps = []"
| "created_points embedder now (tool # tools) ps =
     (if embedding tool = None then
        (let new_point =
               \<lparr>point_id = fresh_id ps,
                payload = \<lparr>page_content = description tool,
                  metadata = [''source'' \<mapsto> JStr ''tool'', ''when'' \<mapsto> JNum now,
                    ''name'' \<mapsto> JStr (name tool), ''docstring'' \<mapsto> JStr (docstring tool)]\<rparr>,
                vector = embedder (description tool)\<rparr>
         in new_point # created_points embedder now tools (ps @ [new_point]))
      else created_points embedder now tools ps)"

definition with_embedding :: "(string \<Rightarrow> 'v) \<Rightarrow> 'v tool \<Rightarrow> 'v tool" where
  "with_embedding embedder tool =
     (if embedding tool = None then tool\<lparr>embedding := Some (embedder (description tool))\<rparr>
      else tool)"

definition creation_calls :: "'v point list \<Rightarrow> store_call list" where
  "creation_calls ps =
     concat (map (\<lambda>p. [AddTexts [page_content (payload p)], Retrieve [point_id p]]) ps)"

definition stale_ids :: "'v tool list \<Rightarrow> 'v point list \<Rightarrow> nat list" where
  "stale_ids tools ps =
     map point_id (filter (\<lambda>r. page_content (payload r) \<notin> description ` set tools) ps)"

definition matched_tools :: "'v tool list \<Rightarrow> 'v point list \<Rightarrow> 'v tool list" where
  "matched_tools tools ps = fst (assign_embeddings (plugins_tools_index tools) ps tools [])"

definition kept_points :: "'v tool list \<Rightarrow> 'v point list \<Rightarrow> 'v point list" where
  "kept_points tools ps = filter (\<lambda>p. point_id p \<notin> set (stale_ids tools ps)) ps"

text \<open>
  Two runs of \<^verbatim>\<open>embed_tools\<close> in a row, and the embeddings that the tools have
  after a run.
\<close>

definition embed_tools_twice ::
  "(string \<Rightarrow> 'v) \<Rightarrow> int \<Rightarrow> int \<Rightarrow> 'v tool list \<Rightarrow> 'v memory \<Rightarrow>
   error + ('v tool list \<times> 'v memory)" where
  "embed_tools_twice embedder now now2 tools mem =
     (case embed_tools embedder now tools mem of
        Inl e \<Rightarrow> Inl e
      | Inr (tools1, mem1) \<Rightarrow> embed_tools embedder now2 tools1 mem1)"

definition embeddings_after :: "error + ('v tool list \<times> 'v memory) \<Rightarrow> 'v option list option" where
  "embeddings_after result =
     (case result of Inl e \<Rightarrow> None | Inr (tools, mem) \<Rightarrow> Some (map embedding tools))"

text \<open>The number of stored points and the number of tools after a run.\<close>

definition stored_and_registered :: "error + ('v tool list \<times> 'v memory) \<Rightarrow> (nat \<times> nat) option" where
  "stored_and_registered result =
     (case result of
        Inl e \<Rightarrow> None
      | Inr (tools, mem) \<Rightarrow> Some (length (points mem), length tools))"

subsection \<open>Plugin folders, \<^verbatim>\<open>find_plugins\<close> and \<^verbatim>\<open>uninstall_plugin\<close>\<close>

text \<open>
  A python file of a plugin: importing it raises, or it defines tools (the members that
  are instances of \<^verbatim>\<open>CatTool\<close>, in the order of \<^verbatim>\<open>getmembers\<close>).
\<close>

datatype 'v py_module = Broken | Module "'v tool list"

text \<open>
  An entry of the plugin folder \<^verbatim>\<open>cat/plugins/\<close>: a regular file, or a directory with
  the python files that \<^verbatim>\<open>glob\<close> finds below it at any depth.
\<close>

datatype 'v entry = RegularFile | Directory "'v py_module list"

text \<open>
  The part of the file system that the registry reads: the JSON files by path, the python
  files of the core plugin, and the entries of the plugin folder by name, in the order in
  which \<^verbatim>\<open>glob\<close> lists them. A name of an entry is not empty, has no slash and is
  neither \<^verbatim>\<open>.\<close> nor \<^verbatim>\<open>..\<close>.
\<close>

record 'v file_system =
  json_files :: files
  core_plugin :: "'v py_module list"
  plugin_entries :: "(string \<times> 'v entry) list"

definition plain_name :: "string \<Rightarrow> bool" where
  "plain_name n \<longleftrightarrow> n \<noteq> [] \<and> CHR ''/'' \<notin> set n \<and> n \<noteq> ''.'' \<and> n \<noteq> ''..''"

text \<open>
  \<^verbatim>\<open>plugin_module = importlib.import_module(plugin_name)\<close> and
  \<^verbatim>\<open>plugin_tools += getmembers(plugin_module, self.is_cat_tool)\<close>, for each python file.
\<close>

fun import_modules :: "'v py_module list \<Rightarrow> 'v tool list \<Rightarrow> error + 'v tool list" where
  "import_modules [] plugin_tools = Inr plugin_tools"
| "import_modules (Broken # py_files) plugin_tools = Inl ImportError"
| "import_modules (Module members # py_files) plugin_tools =
     import_modules py_files (plugin_tools @ members)"

text \<open>
  \<^verbatim>\<open>
  def find_plugin(self, folder):
      py_files_path = os.path.join(folder, "**/*.py")
      py_files = glob.glob(py_files_path, recursive=True)
      plugin_info = None
      plugin_tools = []
      if len(py_files) > 0:
          plugin_info = self.get_plugin_metadata(folder)
          for py_file in py_files:
              plugin_name = py_file.replace("/", ".").replace(".py", "")
              plugin_module = importlib.import_module(plugin_name)
              plugin_tools += getmembers(plugin_module, self.is_cat_tool)
      return plugin_info, plugin_tools
  \<close>
  The python files of the folder are an argument.
\<close>

definition find_plugin ::
  "(string \<Rightarrow> string) \<Rightarrow> files \<Rightarrow> string \<Rightarrow> 'v py_module list \<Rightarrow>
   error + ((string \<rightharpoonup> json) option \<times> 'v tool list)" where
  "find_plugin to_camel_case fs folder py_files =
     (if length py_files > 0 then
        and_then (get_plugin_metadata to_camel_case fs folder) (\<lambda>plugin_info.
        and_then (import_modules py_files []) (\<lambda>plugin_tools.
        Inr (Some plugin_info, plugin_tools)))
      else Inr (None, []))"

text \<open>
  \<^verbatim>\<open>glob.glob("cat/plugins/*/")\<close>: the directories of the plugin folder whose name does
  not start with a dot, with their python files.
\<close>

fun glob_plugins :: "(string \<times> 'v entry) list \<Rightarrow> (string \<times> 'v py_module list) list" where
  "glob_plugins [] = []"
| "glob_plugins ((n, RegularFile) # entries) = glob_plugins entries"
| "glob_plugins ((n, Directory py_files) # entries) =
     (if take 1 n = ''.'' then glob_plugins entries
      else (''cat/plugins/'' @ n @ ''/'', py_files) # glob_plugins entries)"

text \<open>
  \<^verbatim>\<open>
  for folder in plugin_folders:
      plugin_info, plugin_tools = self.find_plugin(folder)
      if plugin_info:
          all_plugins.append(plugin_info)
      if plugin_tools:
          all_tools += plugin_tools
  \<close>
\<close>

fun scan_folders ::
  "(string \<Rightarrow> string) \<Rightarrow> files \<Rightarrow> (string \<times> 'v py_module list) list \<Rightarrow>
   (string \<rightharpoonup> json) list \<Rightarrow> 'v tool list \<Rightarrow>
   error + ((string \<rightharpoonup> json) list \<times> 'v tool list)" where
  "scan_folders to_camel_case fs [] all_plugins all_tools = Inr (all_plugins, all_tools)"
| "scan_folders to_camel_case fs ((folder, py_files) # plugin_folders) all_plugins all_tools =
     (case find_plugin to_camel_case fs folder py_files of
        Inl e \<Rightarrow> Inl e
      | Inr (plugin_info, plugin_tools) \<Rightarrow>
          scan_folders to_camel_case fs plugin_folders
            (case plugin_info of None \<Rightarrow> all_plugins | Some info \<Rightarrow> all_plugins @ [info])
            (all_tools @ plugin_tools))"

text \<open>
  \<^verbatim>\<open>for plugin in all_plugins: log("> " + plugin["name"], "DEBUG")\<close>: the concatenation
  raises \<^verbatim>\<open>TypeError\<close> when the name is not a string.
\<close>

fun log_plugins :: "(string \<rightharpoonup> json) list \<Rightarrow> error + unit" where
  "log_plugins [] = Inr ()"
| "log_plugins (plugin # all_plugins) =
     (case plugin ''name'' of
        None \<Rightarrow> Inl (KeyError ''name'')
      | Some (JStr text) \<Rightarrow> log_plugins all_plugins
      | Some other \<Rightarrow> Inl TypeError)"

text \<open>The registry: \<^verbatim>\<open>self.hooks\<close>, \<^verbatim>\<open>self.tools\<close> and \<^verbatim>\<open>self.plugins\<close>.\<close>

record ('h, 'v) mad_hatter =
  mh_hooks :: "'h list"
  mh_tools :: "'v tool list"
  mh_plugins :: "(string \<rightharpoonup> json) list"

text \<open>
  \<^verbatim>\<open>
  def find_plugins(self):
      core_folder = "cat/mad_hatter/core_plugin/"
      plugin_folders = [core_folder] + glob.glob("cat/plugins/*/")
      all_plugins = []
      all_tools = []
      for folder in plugin_folders: ...
      for plugin in all_plugins: log("> " + plugin["name"], "DEBUG")
      all_hooks = CatHooks.sort_hooks()
      all_tools_fixed = []
      for t in all_tools:
          t_fix = t[1]
          t_fix.augment_tool(self.ccat)
          all_tools_fixed.append(t_fix)
      self.hooks, self.tools, self.plugins = all_hooks, all_tools_fixed, all_plugins
  \<close>
  \<^verbatim>\<open>CatHooks.sort_hooks\<close> and \<^verbatim>\<open>augment_tool\<close> come from
  \<^verbatim>\<open>cat.mad_hatter.decorators\<close>: what the first returns and what the second makes of a
  tool are parameters.
\<close>

definition find_plugins ::
  "(string \<Rightarrow> string) \<Rightarrow> ('v tool \<Rightarrow> 'v tool) \<Rightarrow> 'h list \<Rightarrow> 'v file_system \<Rightarrow>
   error + ('h, 'v) mad_hatter" where
  "find_plugins to_camel_case augment_tool sort_hooks fs =
     (let core_folder = ''cat/mad_hatter/core_plugin/'';
          plugin_folders = (core_folder, core_plugin fs) # glob_plugins (plugin_entries fs)
      in
      and_then (scan_folders to_camel_case (json_files fs) plugin_folders [] [])
        (\<lambda>(all_plugins, all_tools).
      and_then (log_plugins all_plugins) (\<lambda>logged.
      Inr \<lparr>mh_hooks = sort_hooks, mh_tools = map augment_tool all_tools,
           mh_plugins = all_plugins\<rparr>)))"

text \<open>
  \<^verbatim>\<open>
  def plugin_exists(self, plugin_id):
      found = [plugin for plugin in self.plugins if plugin["id"] == plugin_id]
      return len(found) > 0
  \<close>
\<close>

definition plugin_exists :: "('h, 'v) mad_hatter \<Rightarrow> string \<Rightarrow> bool" where
  "plugin_exists self plugin_id =
     (length (filter (\<lambda>plugin. plugin ''id'' = Some (JStr plugin_id)) (mh_plugins self)) > 0)"

text \<open>
  Modelled from the spec: \<^verbatim>\<open>get_plugin_path\<close> is a method of the host object, which
  is not in \<^verbatim>\<open>mad_hatter.py\<close>; it gives the plugin folder that the scan lists.
\<close>

definition get_plugin_path :: string where
  "get_plugin_path = ''cat/plugins/''"

text \<open>
  \<^verbatim>\<open>shutil.rmtree(path)\<close> for a path that names an entry of the plugin folder: it
  raises when nothing has the name or when the name is that of a regular file; it removes
  a directory with all that is below it. A path that names no entry does not exist.
\<close>

definition rmtree :: "'v file_system \<Rightarrow> string \<Rightarrow> error + 'v file_system" where
  "rmtree fs target =
     (if take (length ''cat/plugins/'') target = ''cat/plugins/'' then
        (case map_of (plugin_entries fs) (drop (length ''cat/plugins/'') target) of
           None \<Rightarrow> Inl (FileNotFoundError target)
         | Some RegularFile \<Rightarrow> Inl (NotADirectoryError target)
         | Some (Directory py_files) \<Rightarrow>
             Inr (fs\<lparr>plugin_entries :=
                        filter (\<lambda>(n, e). n \<noteq> drop (length ''cat/plugins/'') target)
                          (plugin_entries fs),
                     json_files :=
                        (\<lambda>file. if take (length (target @ ''/'')) file = target @ ''/''
                                then NoFile else json_files fs file)\<rparr>))
      else Inl (FileNotFoundError target))"

text \<open>The host: the file system, the registry and the vector memory.\<close>

record ('h, 'v) cat =
  file_system :: "'v file_system"
  mad_hatter :: "('h, 'v) mad_hatter"
  memory :: "'v memory"

text \<open>
  \<^verbatim>\<open>
  def uninstall_plugin(self, plugin_id):
      shutil.rmtree(self.ccat.get_plugin_path() + plugin_id)
      self.find_plugins()
      self.embed_tools()
  \<close>
\<close>

definition uninstall_plugin ::
  "(string \<Rightarrow> string) \<Rightarrow> ('v tool \<Rightarrow> 'v tool) \<Rightarrow> 'h list \<Rightarrow> (string \<Rightarrow> 'v) \<Rightarrow> int \<Rightarrow>
   ('h, 'v) cat \<Rightarrow> string \<Rightarrow> error + ('h, 'v) cat" where
  "uninstall_plugin to_camel_case augment_tool sort_hooks embedder now ccat plugin_id =
     and_then (rmtree (file_system ccat) (get_plugin_path @ plugin_id)) (\<lambda>fs.
     and_then (find_plugins to_camel_case augment_tool sort_hooks fs) (\<lambda>self.
     and_then (embed_tools embedder now (mh_tools self) (memory ccat)) (\<lambda>(tools, mem).
     Inr \<lparr>file_system = fs, mad_hatter = self\<lparr>mh_tools := tools\<rparr>, memory = mem\<rparr>)))"

text \<open>What a call raised, if it raised.\<close>

definition raised :: "error + 'a \<Rightarrow> error option" where
  "raised result = (case result of Inl e \<Rightarrow> Some e | Inr v \<Rightarrow> None)"


subsection \<open>Example data\<close>

text \<open>
  Four hooks over numbers, sorted by decreasing priority; the third one raises.
\<close>

definition example_hooks :: "(nat, nat, nat, int) hook list" where
  "example_hooks =
     [\<lparr>hook_name = ''before_cat_sends_message'', priority = 2,
        hook_function = (\<lambda>args c. Inr (sum_list args + c))\<rparr>,
      \<lparr>hook_name = ''agent_prompt_prefix'', priority = 1,
        hook_function = (\<lambda>args c. Inr (length args))\<rparr>,
      \<lparr>hook_name = ''before_cat_reads_message'', priority = 1,
        hook_function = (\<lambda>args c. Inl TypeError)\<rparr>,
      \<lparr>hook_name = ''before_cat_sends_message'', priority = 0,
        hook_function = (\<lambda>args c. Inr 0)\<rparr>]"

text \<open>
  A plugin folder \<^verbatim>\<open>foo\<close> with the settings \<^verbatim>\<open>{"active": true, "x": 1}\<close>, and
  one whose settings file holds the JSON text \<^verbatim>\<open>[]\<close>.
\<close>

definition example_files :: files where
  "example_files =
     (\<lambda>path. NoFile)
       (''cat/plugins/foo/settings.json'' :=
          Document (JObj [''active'' \<mapsto> JBool True, ''x'' \<mapsto> JNum 1]))"

definition list_files :: files where
  "list_files = (\<lambda>path. NoFile)(''cat/plugins/foo/settings.json'' := Document (JArr []))"

text \<open>
  A descriptor \<^verbatim>\<open>cat/plugins/bar/plugin.json\<close> that gives an id and a name and
  nothing else, where the folder \<^verbatim>\<open>cat/plugins/foo/\<close> has no descriptor; and a
  descriptor \<^verbatim>\<open>cat/plugins/foo/plugin.json\<close> that holds the JSON text \<^verbatim>\<open>[]\<close>.
\<close>

definition descriptor_files :: files where
  "descriptor_files =
     (\<lambda>path. NoFile)
       (''cat/plugins/bar/plugin.json'' :=
          Document (JObj [''id'' \<mapsto> JStr ''other'', ''name'' \<mapsto> JStr ''The Bar'']))"

definition list_descriptor_files :: files where
  "list_descriptor_files =
     (\<lambda>path. NoFile)(''cat/plugins/foo/plugin.json'' := Document (JArr []))"

definition example_camel_case :: "string \<Rightarrow> string" where
  "example_camel_case text = (if text = ''foo'' then ''Foo'' else text)"


text \<open>
  A key check that accepts the key \<^verbatim>\<open>meow\<close> alone, a file server that answers with the
  path, two requests for the same file, with and without the key, and a websocket
  scope with the key.
\<close>

definition example_check :: "string option \<Rightarrow> error + string" where
  "example_check key = (if key = Some ''meow'' then Inr ''meow'' else Inl (HTTPException 403))"

definition example_static :: "scope \<Rightarrow> error + string" where
  "example_static sc = Inr (path sc)"

definition request_with_key :: scope where
  "request_with_key =
     \<lparr>scope_type = ''http'', path = ''/static/cat.png'',
      headers = [(''host'', ''localhost''), (''access_token'', ''meow'')]\<rparr>"

definition request_without_key :: scope where
  "request_without_key =
     \<lparr>scope_type = ''http'', path = ''/static/cat.png'', headers = [(''host'', ''localhost'')]\<rparr>"

definition websocket_with_key :: scope where
  "websocket_with_key =
     \<lparr>scope_type = ''websocket'', path = ''/static/cat.png'',
      headers = [(''host'', ''localhost''), (''access_token'', ''meow'')]\<rparr>"


text \<open>
  Two tools that have no embedding yet, and a vector memory that holds a point for the
  first of them and two points of tools that are gone. Vectors are numbers.
\<close>

definition example_tools :: "nat tool list" where
  "example_tools =
     [\<lparr>name = ''search_web'', description = ''search web'', docstring = ''Search the web.'',
       embedding = None\<rparr>,
      \<lparr>name = ''get_the_time'', description = ''get the time'', docstring = ''What time is it?'',
       embedding = None\<rparr>]"

definition example_memory :: "nat memory" where
  "example_memory =
     \<lparr>points =
        [\<lparr>point_id = 1, payload = \<lparr>page_content = ''search web'', metadata = Map.empty\<rparr>,
          vector = 10\<rparr>,
         \<lparr>point_id = 2, payload = \<lparr>page_content = ''removed tool'', metadata = Map.empty\<rparr>,
          vector = 12\<rparr>,
         \<lparr>point_id = 3, payload = \<lparr>page_content = ''renamed tool'', metadata = Map.empty\<rparr>,
          vector = 12\<rparr>],
      calls = []\<rparr>"

text \<open>
  Two tools with one description and a memory that holds a point for it; and the state
  that a run of \<^verbatim>\<open>embed_tools\<close> on the two example tools above leaves.
\<close>

definition twin_tools :: "nat tool list" where
  "twin_tools =
     [\<lparr>name = ''search_web'', description = ''search web'', docstring = ''Search the web.'',
       embedding = None\<rparr>,
      \<lparr>name = ''search_web'', description = ''search web'', docstring = ''Search the web.'',
       embedding = None\<rparr>]"

definition twin_memory :: "nat memory" where
  "twin_memory =
     \<lparr>points =
        [\<lparr>point_id = 1, payload = \<lparr>page_content = ''search web'', metadata = Map.empty\<rparr>,
          vector = 7\<rparr>],
      calls = []\<rparr>"

definition example_tools_embedded :: "nat tool list" where
  "example_tools_embedded =
     [\<lparr>name = ''search_web'', description = ''search web'', docstring = ''Search the web.'',
       embedding = Some 10\<rparr>,
      \<lparr>name = ''get_the_time'', description = ''get the time'', docstring = ''What time is it?'',
       embedding = Some 12\<rparr>]"

definition example_memory_synced :: "nat memory" where
  "example_memory_synced =
     \<lparr>points =
        [\<lparr>point_id = 1, payload = \<lparr>page_content = ''search web'', metadata = Map.empty\<rparr>,
          vector = 10\<rparr>,
         \<lparr>point_id = 2,
          payload = \<lparr>page_content = ''get the time'',
            metadata = [''source'' \<mapsto> JStr ''tool'', ''when'' \<mapsto> JNum 1700000000,
              ''name'' \<mapsto> JStr ''get_the_time'', ''docstring'' \<mapsto> JStr ''What time is it?'']\<rparr>,
          vector = 12\<rparr>],
      calls = [GetAllPoints, Delete [2, 3], AddTexts [''get the time''], Retrieve [2]]\<rparr>"

text \<open>
  A memory with two points of one text, a single tool without and with an embedding,
  and a memory without points.
\<close>

definition doubled_memory :: "nat memory" where
  "doubled_memory =
     \<lparr>points =
        [\<lparr>point_id = 1, payload = \<lparr>page_content = ''search web'', metadata = Map.empty\<rparr>,
          vector = 10\<rparr>,
         \<lparr>point_id = 2, payload = \<lparr>page_content = ''search web'', metadata = Map.empty\<rparr>,
          vector = 10\<rparr>],
      calls = []\<rparr>"

definition one_tool :: "nat tool list" where
  "one_tool =
     [\<lparr>name = ''search_web'', description = ''search web'', docstring = ''Search the web.'',
       embedding = None\<rparr>]"

definition one_tool_embedded :: "nat tool list" where
  "one_tool_embedded =
     [\<lparr>name = ''search_web'', description = ''search web'', docstring = ''Search the web.'',
       embedding = Some 10\<rparr>]"

definition empty_memory :: "nat memory" where
  "empty_memory = \<lparr>points = [], calls = []\<rparr>"

text \<open>
  A host: the core plugin with one tool, the plugin \<^verbatim>\<open>foo\<close> with one tool, a
  directory \<^verbatim>\<open>notes\<close> without python files and a regular file; the registry that a
  scan of it gives; and the file system without \<^verbatim>\<open>notes\<close> and without \<^verbatim>\<open>foo\<close>.
\<close>

definition example_file_system :: "nat file_system" where
  "example_file_system =
     \<lparr>json_files = descriptor_files,
      core_plugin =
        [Module [\<lparr>name = ''get_the_time'', description = ''get the time'',
                  docstring = ''What time is it?'', embedding = None\<rparr>]],
      plugin_entries =
        [(''foo'', Directory
            [Module [\<lparr>name = ''search_web'', description = ''search web'',
                      docstring = ''Search the web.'', embedding = None\<rparr>]]),
         (''notes'', Directory []),
         (''README.md'', RegularFile)]\<rparr>"

definition example_plugins :: "(string \<rightharpoonup> json) list" where
  "example_plugins =
     [[''id'' \<mapsto> JStr ''core_plugin'',
       ''name'' \<mapsto> JStr ''core_plugin'',
       ''description'' \<mapsto>
          JStr ''Description not found for this plugin. Please create a `plugin.json` in the plugin folder.'',
       ''author_name'' \<mapsto> JStr ''Unknown author'',
       ''author_url'' \<mapsto> JStr '''',
       ''plugin_url'' \<mapsto> JStr '''',
       ''tags'' \<mapsto> JStr ''unknown'',
       ''thumb'' \<mapsto> JStr '''',
       ''version'' \<mapsto> JStr ''0.0.1''],
      [''id'' \<mapsto> JStr ''foo'',
       ''name'' \<mapsto> JStr ''Foo'',
       ''description'' \<mapsto>
          JStr ''Description not found for this plugin. Please create a `plugin.json` in the plugin folder.'',
       ''author_name'' \<mapsto> JStr ''Unknown author'',
       ''author_url'' \<mapsto> JStr '''',
       ''plugin_url'' \<mapsto> JStr '''',
       ''tags'' \<mapsto> JStr ''unknown'',
       ''thumb'' \<mapsto> JStr '''',
       ''version'' \<mapsto> JStr ''0.0.1'']]"

definition example_registry :: "(unit, nat) mad_hatter" where
  "example_registry =
     \<lparr>mh_hooks = [],
      mh_tools =
        [\<lparr>name = ''get_the_time'', description = ''get the time'',
          docstring = ''What time is it?'', embedding = None\<rparr>,
         \<lparr>name = ''search_web'', description = ''search web'',
          docstring = ''Search the web.'', embedding = None\<rparr>],
      mh_plugins = example_plugins\<rparr>"

definition example_cat :: "(unit, nat) cat" where
  "example_cat =
     \<lparr>file_system = example_file_system, mad_hatter = example_registry,
      memory = empty_memory\<rparr>"

definition without_notes :: "nat file_system" where
  "without_notes =
     \<lparr>json_files =
        (\<lambda>file. if take (length ''cat/plugins/notes/'') file = ''cat/plugins/notes/'' then NoFile
                else descriptor_files file),
      core_plugin =
        [Module [\<lparr>name = ''get_the_time'', description = ''get the time'',
                  docstring = ''What time is it?'', embedding = None\<rparr>]],
      plugin_entries =
        [(''foo'', Directory
            [Module [\<lparr>name = ''search_web'', description = ''search web'',
                      docstring = ''Search the web.'', embedding = None\<rparr>]]),
         (''README.md'', RegularFile)]\<rparr>"

definition without_foo :: "nat file_system" where
  "without_foo =
     \<lparr>json_files =
        (\<lambda>file. if take (length ''cat/plugins/foo/'') file = ''cat/plugins/foo/'' then NoFile
                else descriptor_files file),
      core_plugin =
        [Module [\<lparr>name = ''get_the_time'', description = ''get the time'',
                  docstring = ''What time is it?'', embedding = None\<rparr>]],
      plugin_entries = [(''notes'', Directory []), (''README.md'', RegularFile)]\<rparr>"

section \<open>Properties of \<^verbatim>\<open>execute_hook\<close>\<close>

lemma execute_hook_absent:
  "wanted \<notin> hook_name ` set hooks \<Longrightarrow>
   execute_hook hooks ccat wanted args =
     Inl (Exception (''Hook '' @ wanted @ '' not present in any plugin''))"
  by (induction hooks) auto

lemma execute_hook_present:
  "wanted \<in> hook_name ` set hooks \<Longrightarrow>
   \<exists>h \<in> set hooks. hook_name h = wanted \<and>
     execute_hook hooks ccat wanted args = hook_function h args ccat"
  by (induction hooks) auto

lemma execute_hook_find:
  "execute_hook hooks ccat wanted args =
     (case find (\<lambda>h. hook_name h = wanted) hooks of
        None \<Rightarrow> Inl (Exception (''Hook '' @ wanted @ '' not present in any plugin''))
      | Some h \<Rightarrow> hook_function h args ccat)"
  by (induction hooks) auto

lemma find_hook_None:
  "find (\<lambda>h. hook_name h = wanted) hooks = None \<longleftrightarrow> wanted \<notin> hook_name ` set hooks"
  by (auto simp: find_None_iff)

lemma execute_hook_split:
  "wanted \<in> hook_name ` set hooks \<Longrightarrow>
   \<exists>h pre post. hooks = pre @ h # post \<and> hook_name h = wanted \<and>
     wanted \<notin> hook_name ` set pre \<and>
     execute_hook_calls hooks ccat wanted args = [(h, args, ccat)] \<and>
     execute_hook hooks ccat wanted args = hook_function h args ccat"
proof (induction hooks)
  case Nil
  then show ?case by simp
next
  case (Cons g gs)
  show ?case
  proof (cases "wanted = hook_name g")
    case True
    then have "g # gs = [] @ g # gs \<and> hook_name g = wanted \<and> wanted \<notin> hook_name ` set [] \<and>
        execute_hook_calls (g # gs) ccat wanted args = [(g, args, ccat)] \<and>
        execute_hook (g # gs) ccat wanted args = hook_function g args ccat"
      by simp
    then show ?thesis by blast
  next
    case False
    with Cons.prems have "wanted \<in> hook_name ` set gs" by auto
    from Cons.IH [OF this] obtain h pre post where
      h: "gs = pre @ h # post" "hook_name h = wanted" "wanted \<notin> hook_name ` set pre"
         "execute_hook_calls gs ccat wanted args = [(h, args, ccat)]"
         "execute_hook gs ccat wanted args = hook_function h args ccat"
      by blast
    with False have "g # gs = (g # pre) @ h # post \<and> hook_name h = wanted \<and>
        wanted \<notin> hook_name ` set (g # pre) \<and>
        execute_hook_calls (g # gs) ccat wanted args = [(h, args, ccat)] \<and>
        execute_hook (g # gs) ccat wanted args = hook_function h args ccat"
      by simp
    then show ?thesis by blast
  qed
qed

lemma sorted_first_match_highest:
  fixes hooks :: "('a, 'c, 'r, 'p::linorder) hook list"
  assumes "sorted_wrt (\<lambda>a b. priority b \<le> priority a) hooks"
    and "hooks = pre @ h # post" and "wanted \<notin> hook_name ` set pre"
    and "g \<in> set hooks" and "hook_name g = wanted"
  shows "priority g \<le> priority h"
  using assms by (auto simp: sorted_wrt_append)

text \<open>
  Claim C3, as the code has it. When no registered hook has the requested name,
  \<^verbatim>\<open>execute_hook\<close> raises the exception whose message names the missing hook: the
  failure is never a value returned in place of a result. When a hook of that name is
  registered, the outcome of \<^verbatim>\<open>execute_hook\<close> is that of the first hook of the name:
  it returns what the hook returns, and it raises what the hook raises. So
  \<^verbatim>\<open>execute_hook\<close> raises if and only if no hook has the name or the first hook of the
  name raises.
\<close>

theorem execute_hook_raises_iff_not_found_or_hook_raises:
  "execute_hook hooks ccat wanted args =
     (case find (\<lambda>h. hook_name h = wanted) hooks of
        None \<Rightarrow> Inl (Exception (''Hook '' @ wanted @ '' not present in any plugin''))
      | Some h \<Rightarrow> hook_function h args ccat) \<and>
   (find (\<lambda>h. hook_name h = wanted) hooks = None \<longleftrightarrow> wanted \<notin> hook_name ` set hooks) \<and>
   (wanted \<notin> hook_name ` set hooks \<longrightarrow>
      execute_hook hooks ccat wanted args =
        Inl (Exception (''Hook '' @ wanted @ '' not present in any plugin''))) \<and>
   (wanted \<in> hook_name ` set hooks \<longrightarrow>
      (\<exists>h \<in> set hooks. hook_name h = wanted \<and>
         execute_hook hooks ccat wanted args = hook_function h args ccat)) \<and>
   (isl (execute_hook hooks ccat wanted args) \<longleftrightarrow>
      (case find (\<lambda>h. hook_name h = wanted) hooks of
         None \<Rightarrow> True
       | Some h \<Rightarrow> isl (hook_function h args ccat)))"
proof (intro conjI impI)
  show "execute_hook hooks ccat wanted args =
     (case find (\<lambda>h. hook_name h = wanted) hooks of
        None \<Rightarrow> Inl (Exception (''Hook '' @ wanted @ '' not present in any plugin''))
      | Some h \<Rightarrow> hook_function h args ccat)"
    by (rule execute_hook_find)
next
  show "find (\<lambda>h. hook_name h = wanted) hooks = None \<longleftrightarrow> wanted \<notin> hook_name ` set hooks"
    by (rule find_hook_None)
next
  assume "wanted \<notin> hook_name ` set hooks"
  then show "execute_hook hooks ccat wanted args =
      Inl (Exception (''Hook '' @ wanted @ '' not present in any plugin''))"
    by (rule execute_hook_absent)
next
  assume "wanted \<in> hook_name ` set hooks"
  then show "\<exists>h \<in> set hooks. hook_name h = wanted \<and>
      execute_hook hooks ccat wanted args = hook_function h args ccat"
    by (rule execute_hook_present)
next
  show "isl (execute_hook hooks ccat wanted args) \<longleftrightarrow>
      (case find (\<lambda>h. hook_name h = wanted) hooks of
         None \<Rightarrow> True
       | Some h \<Rightarrow> isl (hook_function h args ccat))"
    unfolding execute_hook_find [of hooks ccat wanted args]
    by (simp split: option.splits)
qed

theorem execute_hook_raises_iff_not_found_or_hook_raises_witness:
  "''agent_prompt_prefix'' \<in> hook_name ` set example_hooks \<and>
   ''no_such_hook'' \<notin> hook_name ` set example_hooks \<and>
   execute_hook example_hooks 7 ''agent_prompt_prefix'' [1, 2, 3] = Inr 3 \<and>
   execute_hook example_hooks 7 ''no_such_hook'' [1, 2, 3] =
     Inl (Exception ''Hook no_such_hook not present in any plugin'') \<and>
   execute_hook example_hooks 7 ''before_cat_reads_message'' [1, 2, 3] = Inl TypeError"
  using execute_hook_raises_iff_not_found_or_hook_raises
      [of example_hooks 7 "''no_such_hook''" "[1, 2, 3]"]
    execute_hook_raises_iff_not_found_or_hook_raises
      [of example_hooks 7 "''agent_prompt_prefix''" "[1, 2, 3]"]
    execute_hook_raises_iff_not_found_or_hook_raises
      [of example_hooks 7 "''before_cat_reads_message''" "[1, 2, 3]"]
  by (simp add: example_hooks_def)

theorem execute_hook_raises_iff_not_found_or_hook_raises_counterexample:
  "''before_cat_reads_message'' \<in> hook_name ` set example_hooks \<and>
   execute_hook example_hooks 7 ''before_cat_reads_message'' [1, 2, 3] = Inl TypeError \<and>
   isl (execute_hook example_hooks 7 ''before_cat_reads_message'' [1, 2, 3])"
  by (simp add: example_hooks_def)

text \<open>
  Claim C4. When a hook of the requested name is registered, \<^verbatim>\<open>execute_hook\<close> makes
  exactly one call: it calls the first hook of that name in the list, with the positional
  arguments it was given and the host object as \<^verbatim>\<open>cat\<close>, and the outcome of that call
  is its own: it returns what the call returns. In a list sorted by decreasing priority,
  as \<^verbatim>\<open>sort_hooks\<close> leaves it, no hook of that name has a higher priority than the
  one called.
\<close>

theorem execute_hook_calls_first_match:
  fixes hooks :: "('a, 'c, 'r, 'p::linorder) hook list"
  assumes "wanted \<in> hook_name ` set hooks"
  shows "\<exists>h pre post. hooks = pre @ h # post \<and> hook_name h = wanted \<and>
     wanted \<notin> hook_name ` set pre \<and>
     execute_hook_calls hooks ccat wanted args = [(h, args, ccat)] \<and>
     execute_hook hooks ccat wanted args = hook_function h args ccat \<and>
     (\<forall>v. hook_function h args ccat = Inr v \<longrightarrow>
        execute_hook hooks ccat wanted args = Inr v) \<and>
     (sorted_wrt (\<lambda>a b. priority b \<le> priority a) hooks \<longrightarrow>
        (\<forall>g \<in> set hooks. hook_name g = wanted \<longrightarrow> priority g \<le> priority h))"
proof -
  from execute_hook_split [OF assms, of ccat args] obtain h pre post where
    h: "hooks = pre @ h # post" "hook_name h = wanted" "wanted \<notin> hook_name ` set pre"
       "execute_hook_calls hooks ccat wanted args = [(h, args, ccat)]"
       "execute_hook hooks ccat wanted args = hook_function h args ccat"
    by blast
  have "sorted_wrt (\<lambda>a b. priority b \<le> priority a) hooks \<longrightarrow>
        (\<forall>g \<in> set hooks. hook_name g = wanted \<longrightarrow> priority g \<le> priority h)"
    using sorted_first_match_highest [OF _ h(1) h(3)] by blast
  moreover have "\<forall>v. hook_function h args ccat = Inr v \<longrightarrow>
      execute_hook hooks ccat wanted args = Inr v"
    using h(5) by simp
  ultimately show ?thesis using h by blast
qed

theorem execute_hook_calls_first_match_witness:
  "''before_cat_sends_message'' \<in> hook_name ` set example_hooks \<and>
   sorted_wrt (\<lambda>a b. priority b \<le> priority a) example_hooks \<and>
   execute_hook_calls example_hooks 7 ''before_cat_sends_message'' [1, 2, 3] =
     [(example_hooks ! 0, [1, 2, 3], 7)] \<and>
   execute_hook example_hooks 7 ''before_cat_sends_message'' [1, 2, 3] = Inr 13 \<and>
   (\<exists>h pre post. example_hooks = pre @ h # post \<and>
      hook_name h = ''before_cat_sends_message'' \<and>
      ''before_cat_sends_message'' \<notin> hook_name ` set pre \<and>
      execute_hook_calls example_hooks 7 ''before_cat_sends_message'' [1, 2, 3] =
        [(h, [1, 2, 3], 7)] \<and>
      execute_hook example_hooks 7 ''before_cat_sends_message'' [1, 2, 3] =
        hook_function h [1, 2, 3] 7 \<and>
      (\<forall>v. hook_function h [1, 2, 3] 7 = Inr v \<longrightarrow>
         execute_hook example_hooks 7 ''before_cat_sends_message'' [1, 2, 3] = Inr v) \<and>
      (sorted_wrt (\<lambda>a b. priority b \<le> priority a) example_hooks \<longrightarrow>
         (\<forall>g \<in> set example_hooks.
            hook_name g = ''before_cat_sends_message'' \<longrightarrow> priority g \<le> priority h)))"
proof -
  have present: "''before_cat_sends_message'' \<in> hook_name ` set example_hooks"
    by (simp add: example_hooks_def)
  have sorted: "sorted_wrt (\<lambda>a b. priority b \<le> priority a) example_hooks"
    by (simp add: example_hooks_def)
  have calls: "execute_hook_calls example_hooks 7 ''before_cat_sends_message'' [1, 2, 3] =
     [(example_hooks ! 0, [1, 2, 3], 7)]"
    by (simp add: example_hooks_def)
  have result: "execute_hook example_hooks 7 ''before_cat_sends_message'' [1, 2, 3] = Inr 13"
    by (simp add: example_hooks_def)
  from execute_hook_calls_first_match [OF present, of 7 "[1, 2, 3]"]
  show ?thesis using present sorted calls result by simp
qed

section \<open>Properties of the plugin settings\<close>

lemma settings_path_foo: "settings_path ''foo'' = ''cat/plugins/foo/settings.json''"
  by (simp add: settings_path_def path_join_def)

lemma get_plugin_settings_default:
  "fs (settings_path plugin_id) = NoFile \<or> fs (settings_path plugin_id) = Unparseable \<Longrightarrow>
   get_plugin_settings fs plugin_id = JObj [''active'' \<mapsto> JBool False]"
  by (auto simp: get_plugin_settings_def)

lemma get_plugin_settings_dictionary:
  "fs (settings_path plugin_id) = Document (JObj m) \<Longrightarrow>
   get_plugin_settings fs plugin_id =
     JObj (if m ''active'' = None then m(''active'' \<mapsto> JBool False) else m)"
  by (simp add: get_plugin_settings_def)

text \<open>
  Claim C6. The claim: \<^verbatim>\<open>get_plugin_settings\<close> returns \<^verbatim>\<open>{"active": false}\<close>
  when the settings file is missing or is not JSON, and what it returns for a readable
  document always has the key \<^verbatim>\<open>active\<close>. The two lemmas above are the claim for a
  missing file, for a file that is not JSON and for a document that is a dictionary. A
  document that is not a dictionary is returned as it is: for the JSON text \<^verbatim>\<open>[]\<close> the
  assignment \<^verbatim>\<open>settings["active"] = False\<close> raises \<^verbatim>\<open>TypeError\<close>, the handler logs
  that it defaults to \<^verbatim>\<open>'active': False\<close>, and the function returns the empty list,
  in which there is no \<^verbatim>\<open>active\<close>.
\<close>

theorem get_plugin_settings_list_document:
  "get_plugin_settings list_files ''foo'' = JArr [] \<and>
   py_contains ''active'' (get_plugin_settings list_files ''foo'') = Inr False \<and>
   get_plugin_settings list_files ''foo'' \<noteq> JObj [''active'' \<mapsto> JBool False]"
  by (simp add: get_plugin_settings_def list_files_def settings_path_foo)

text \<open>
  Claim C7. \<^verbatim>\<open>save_plugin_settings\<close> lays the payload over the stored document: in the
  dictionary it returns, a key of the payload has the payload's value and every other key
  has the value the stored document gives it. For a stored dictionary the result is the
  merge, which is also written back. Stored \<^verbatim>\<open>{"active": true, "x": 1}\<close> and payload
  \<^verbatim>\<open>{"x": 2}\<close> give \<^verbatim>\<open>{"active": true, "x": 2}\<close>.
\<close>

theorem save_plugin_settings_merges:
  "(fs (settings_path plugin_id) = Document stored \<longrightarrow>
      (\<forall>key. fst (save_plugin_settings fs plugin_id partial_settings) key =
         (case partial_settings key of Some v \<Rightarrow> Some v | None \<Rightarrow> items stored key))) \<and>
   (fs (settings_path plugin_id) = Document (JObj current) \<longrightarrow>
      save_plugin_settings fs plugin_id partial_settings =
        (current ++ partial_settings,
         fs(settings_path plugin_id := Document (JObj (current ++ partial_settings))))) \<and>
   fst (save_plugin_settings example_files ''foo'' [''x'' \<mapsto> JNum 2]) =
     [''active'' \<mapsto> JBool True, ''x'' \<mapsto> JNum 2]"
proof (intro conjI impI allI)
  fix key
  assume "fs (settings_path plugin_id) = Document stored"
  then show "fst (save_plugin_settings fs plugin_id partial_settings) key =
      (case partial_settings key of Some v \<Rightarrow> Some v | None \<Rightarrow> items stored key)"
    by (cases stored)
      (simp_all add: save_plugin_settings_def Let_def map_add_def split: option.splits)
next
  assume "fs (settings_path plugin_id) = Document (JObj current)"
  then show "save_plugin_settings fs plugin_id partial_settings =
      (current ++ partial_settings, fs(settings_path plugin_id := Document (JObj (current ++ partial_settings))))"
    by (simp add: save_plugin_settings_def Let_def)
next
  show "fst (save_plugin_settings example_files ''foo'' [''x'' \<mapsto> JNum 2]) =
      [''active'' \<mapsto> JBool True, ''x'' \<mapsto> JNum 2]"
    by (simp add: save_plugin_settings_def Let_def example_files_def settings_path_foo)
qed

theorem save_plugin_settings_merges_witness:
  "example_files (settings_path ''foo'') =
     Document (JObj [''active'' \<mapsto> JBool True, ''x'' \<mapsto> JNum 1]) \<and>
   fst (save_plugin_settings example_files ''foo'' [''x'' \<mapsto> JNum 2, ''y'' \<mapsto> JNull])
     ''x'' = Some (JNum 2) \<and>
   fst (save_plugin_settings example_files ''foo'' [''x'' \<mapsto> JNum 2, ''y'' \<mapsto> JNull])
     ''active'' = Some (JBool True) \<and>
   fst (save_plugin_settings example_files ''foo'' [''x'' \<mapsto> JNum 2, ''y'' \<mapsto> JNull])
     ''z'' = None \<and>
   snd (save_plugin_settings example_files ''foo'' [''x'' \<mapsto> JNum 2, ''y'' \<mapsto> JNull])
     (settings_path ''foo'') =
       Document (JObj [''active'' \<mapsto> JBool True, ''x'' \<mapsto> JNum 2, ''y'' \<mapsto> JNull])"
proof -
  have stored: "example_files (settings_path ''foo'') =
      Document (JObj [''active'' \<mapsto> JBool True, ''x'' \<mapsto> JNum 1])"
    by (simp add: example_files_def settings_path_foo)
  from save_plugin_settings_merges
    [of example_files "''foo''" "JObj [''active'' \<mapsto> JBool True, ''x'' \<mapsto> JNum 1]"
        "[''x'' \<mapsto> JNum 2, ''y'' \<mapsto> JNull]" "[''active'' \<mapsto> JBool True, ''x'' \<mapsto> JNum 1]"]
  show ?thesis using stored by simp
qed

section \<open>Properties of the plugin metadata\<close>

lemma get_plugin_metadata_dictionary:
  assumes "(if isfile (fs (path_join plugin_folder [''plugin.json'']))
            then (case json_load (path_join plugin_folder [''plugin.json''])
                         (fs (path_join plugin_folder [''plugin.json''])) of
                    Inl e \<Rightarrow> JObj Map.empty | Inr loaded \<Rightarrow> loaded)
            else JObj Map.empty) = JObj m"
  shows "get_plugin_metadata to_camel_case fs plugin_folder =
     Inr [''id'' \<mapsto> JStr (basename (normpath plugin_folder)),
          ''name'' \<mapsto> (case m ''name'' of
                       None \<Rightarrow> JStr (to_camel_case (basename (normpath plugin_folder)))
                     | Some v \<Rightarrow> v),
          ''description'' \<mapsto> (case m ''description'' of
                       None \<Rightarrow>
                         JStr ''Description not found for this plugin. Please create a `plugin.json` in the plugin folder.''
                     | Some v \<Rightarrow> v),
          ''author_name'' \<mapsto> (case m ''author_name'' of
                       None \<Rightarrow> JStr ''Unknown author'' | Some v \<Rightarrow> v),
          ''author_url'' \<mapsto> (case m ''author_url'' of None \<Rightarrow> JStr '''' | Some v \<Rightarrow> v),
          ''plugin_url'' \<mapsto> (case m ''plugin_url'' of None \<Rightarrow> JStr '''' | Some v \<Rightarrow> v),
          ''tags'' \<mapsto> (case m ''tags'' of None \<Rightarrow> JStr ''unknown'' | Some v \<Rightarrow> v),
          ''thumb'' \<mapsto> (case m ''thumb'' of None \<Rightarrow> JStr '''' | Some v \<Rightarrow> v),
          ''version'' \<mapsto> (case m ''version'' of None \<Rightarrow> JStr ''0.0.1'' | Some v \<Rightarrow> v)]"
  unfolding get_plugin_metadata_def Let_def assms
  by (simp add: and_then_def)

lemma get_plugin_metadata_not_dictionary:
  assumes "fs (path_join plugin_folder [''plugin.json'']) = Document j"
    and "\<forall>m. j \<noteq> JObj m"
  shows "get_plugin_metadata to_camel_case fs plugin_folder = Inl AttributeError"
  using assms by (cases j) (simp_all add: get_plugin_metadata_def and_then_def)

lemma get_plugin_metadata_id:
  assumes "get_plugin_metadata to_camel_case fs plugin_folder = Inr meta"
  shows "meta ''id'' = Some (JStr (basename (normpath plugin_folder)))"
proof (cases "fs (path_join plugin_folder [''plugin.json''])")
  case NoFile
  then show ?thesis
    using assms get_plugin_metadata_dictionary [of fs plugin_folder Map.empty to_camel_case]
    by auto
next
  case Unparseable
  then show ?thesis
    using assms get_plugin_metadata_dictionary [of fs plugin_folder Map.empty to_camel_case]
    by auto
next
  case (Document j)
  show ?thesis
  proof (cases "\<exists>m. j = JObj m")
    case True
    then obtain m where "j = JObj m" by blast
    with Document show ?thesis
      using assms get_plugin_metadata_dictionary [of fs plugin_folder m to_camel_case]
      by auto
  next
    case False
    with Document assms show ?thesis
      using get_plugin_metadata_not_dictionary [of fs plugin_folder j to_camel_case]
      by simp
  qed
qed


lemma basename_normpath_foo: "basename (normpath ''cat/plugins/foo/'') = ''foo''"
  by (simp add: basename_def normpath_def norm_step_def)

lemma basename_normpath_bar: "basename (normpath ''cat/plugins/bar/'') = ''bar''"
  by (simp add: basename_def normpath_def norm_step_def)

text \<open>
  Whenever \<^verbatim>\<open>get_plugin_metadata\<close> returns, the id is the base name of the normalised
  folder path, whatever the descriptor holds. Without a readable descriptor every field
  has its default: the name is the camel-cased id, the version is \<^verbatim>\<open>0.0.1\<close>, and the
  description is a text that names \<^verbatim>\<open>plugin.json\<close>. With a descriptor that is a
  dictionary, each of these fields has the descriptor's value, or its default when the
  descriptor has no such key.
\<close>

lemma get_plugin_metadata_id_and_defaults:
  "(\<forall>meta. get_plugin_metadata to_camel_case fs plugin_folder = Inr meta \<longrightarrow>
      meta ''id'' = Some (JStr (basename (normpath plugin_folder)))) \<and>
   (fs (path_join plugin_folder [''plugin.json'']) = NoFile \<or>
    fs (path_join plugin_folder [''plugin.json'']) = Unparseable \<longrightarrow>
      get_plugin_metadata to_camel_case fs plugin_folder =
        Inr [''id'' \<mapsto> JStr (basename (normpath plugin_folder)),
             ''name'' \<mapsto> JStr (to_camel_case (basename (normpath plugin_folder))),
             ''description'' \<mapsto>
                JStr ''Description not found for this plugin. Please create a `plugin.json` in the plugin folder.'',
             ''author_name'' \<mapsto> JStr ''Unknown author'',
             ''author_url'' \<mapsto> JStr '''',
             ''plugin_url'' \<mapsto> JStr '''',
             ''tags'' \<mapsto> JStr ''unknown'',
             ''thumb'' \<mapsto> JStr '''',
             ''version'' \<mapsto> JStr ''0.0.1'']) \<and>
   (fs (path_join plugin_folder [''plugin.json'']) = Document (JObj m) \<longrightarrow>
      (\<exists>meta. get_plugin_metadata to_camel_case fs plugin_folder = Inr meta \<and>
         meta ''id'' = Some (JStr (basename (normpath plugin_folder))) \<and>
         meta ''name'' =
           Some (case m ''name'' of
                   None \<Rightarrow> JStr (to_camel_case (basename (normpath plugin_folder)))
                 | Some v \<Rightarrow> v) \<and>
         meta ''description'' =
           Some (case m ''description'' of
                   None \<Rightarrow>
                     JStr ''Description not found for this plugin. Please create a `plugin.json` in the plugin folder.''
                 | Some v \<Rightarrow> v) \<and>
         meta ''version'' =
           Some (case m ''version'' of None \<Rightarrow> JStr ''0.0.1'' | Some v \<Rightarrow> v))) \<and>
   occurs_in ''plugin.json''
     ''Description not found for this plugin. Please create a `plugin.json` in the plugin folder.''"
proof (intro conjI impI allI)
  fix meta
  assume "get_plugin_metadata to_camel_case fs plugin_folder = Inr meta"
  then show "meta ''id'' = Some (JStr (basename (normpath plugin_folder)))"
    by (rule get_plugin_metadata_id)
next
  assume "fs (path_join plugin_folder [''plugin.json'']) = NoFile \<or>
    fs (path_join plugin_folder [''plugin.json'']) = Unparseable"
  then have "(if isfile (fs (path_join plugin_folder [''plugin.json'']))
       then (case json_load (path_join plugin_folder [''plugin.json''])
                    (fs (path_join plugin_folder [''plugin.json''])) of
               Inl e \<Rightarrow> JObj Map.empty | Inr loaded \<Rightarrow> loaded)
       else JObj Map.empty) = JObj Map.empty"
    by auto
  from get_plugin_metadata_dictionary [of fs plugin_folder Map.empty to_camel_case, OF this]
  show "get_plugin_metadata to_camel_case fs plugin_folder =
        Inr [''id'' \<mapsto> JStr (basename (normpath plugin_folder)),
             ''name'' \<mapsto> JStr (to_camel_case (basename (normpath plugin_folder))),
             ''description'' \<mapsto>
                JStr ''Description not found for this plugin. Please create a `plugin.json` in the plugin folder.'',
             ''author_name'' \<mapsto> JStr ''Unknown author'',
             ''author_url'' \<mapsto> JStr '''',
             ''plugin_url'' \<mapsto> JStr '''',
             ''tags'' \<mapsto> JStr ''unknown'',
             ''thumb'' \<mapsto> JStr '''',
             ''version'' \<mapsto> JStr ''0.0.1'']"
    by simp
next
  assume "fs (path_join plugin_folder [''plugin.json'']) = Document (JObj m)"
  then have "(if isfile (fs (path_join plugin_folder [''plugin.json'']))
       then (case json_load (path_join plugin_folder [''plugin.json''])
                    (fs (path_join plugin_folder [''plugin.json''])) of
               Inl e \<Rightarrow> JObj Map.empty | Inr loaded \<Rightarrow> loaded)
       else JObj Map.empty) = JObj m"
    by simp
  from get_plugin_metadata_dictionary [of fs plugin_folder m to_camel_case, OF this]
  show "\<exists>meta. get_plugin_metadata to_camel_case fs plugin_folder = Inr meta \<and>
         meta ''id'' = Some (JStr (basename (normpath plugin_folder))) \<and>
         meta ''name'' =
           Some (case m ''name'' of
                   None \<Rightarrow> JStr (to_camel_case (basename (normpath plugin_folder)))
                 | Some v \<Rightarrow> v) \<and>
         meta ''description'' =
           Some (case m ''description'' of
                   None \<Rightarrow>
                     JStr ''Description not found for this plugin. Please create a `plugin.json` in the plugin folder.''
                 | Some v \<Rightarrow> v) \<and>
         meta ''version'' =
           Some (case m ''version'' of None \<Rightarrow> JStr ''0.0.1'' | Some v \<Rightarrow> v)"
    by simp
next
  show "occurs_in ''plugin.json''
     ''Description not found for this plugin. Please create a `plugin.json` in the plugin folder.''"
    by simp
qed

lemma get_plugin_metadata_id_and_defaults_example:
  "descriptor_files (path_join ''cat/plugins/foo/'' [''plugin.json'']) = NoFile \<and>
   get_plugin_metadata example_camel_case descriptor_files ''cat/plugins/foo/'' =
     Inr [''id'' \<mapsto> JStr ''foo'',
          ''name'' \<mapsto> JStr ''Foo'',
          ''description'' \<mapsto>
             JStr ''Description not found for this plugin. Please create a `plugin.json` in the plugin folder.'',
          ''author_name'' \<mapsto> JStr ''Unknown author'',
          ''author_url'' \<mapsto> JStr '''',
          ''plugin_url'' \<mapsto> JStr '''',
          ''tags'' \<mapsto> JStr ''unknown'',
          ''thumb'' \<mapsto> JStr '''',
          ''version'' \<mapsto> JStr ''0.0.1''] \<and>
   descriptor_files (path_join ''cat/plugins/bar/'' [''plugin.json'']) =
     Document (JObj [''id'' \<mapsto> JStr ''other'', ''name'' \<mapsto> JStr ''The Bar'']) \<and>
   (\<exists>meta. get_plugin_metadata example_camel_case descriptor_files ''cat/plugins/bar/'' =
        Inr meta \<and>
      meta ''id'' = Some (JStr ''bar'') \<and>
      meta ''name'' = Some (JStr ''The Bar'') \<and>
      meta ''version'' = Some (JStr ''0.0.1''))"
proof -
  have no_file: "descriptor_files (path_join ''cat/plugins/foo/'' [''plugin.json'']) = NoFile"
    by (simp add: descriptor_files_def path_join_def)
  have document: "descriptor_files (path_join ''cat/plugins/bar/'' [''plugin.json'']) =
      Document (JObj [''id'' \<mapsto> JStr ''other'', ''name'' \<mapsto> JStr ''The Bar''])"
    by (simp add: descriptor_files_def path_join_def)
  have foo: "get_plugin_metadata example_camel_case descriptor_files ''cat/plugins/foo/'' =
     Inr [''id'' \<mapsto> JStr ''foo'',
          ''name'' \<mapsto> JStr ''Foo'',
          ''description'' \<mapsto>
             JStr ''Description not found for this plugin. Please create a `plugin.json` in the plugin folder.'',
          ''author_name'' \<mapsto> JStr ''Unknown author'',
          ''author_url'' \<mapsto> JStr '''',
          ''plugin_url'' \<mapsto> JStr '''',
          ''tags'' \<mapsto> JStr ''unknown'',
          ''thumb'' \<mapsto> JStr '''',
          ''version'' \<mapsto> JStr ''0.0.1'']"
    using get_plugin_metadata_id_and_defaults
      [of example_camel_case descriptor_files "''cat/plugins/foo/''" Map.empty,
       THEN conjunct2, THEN conjunct1, THEN mp, OF disjI1, OF no_file]
    by (simp add: basename_normpath_foo example_camel_case_def)
  have bar: "\<exists>meta. get_plugin_metadata example_camel_case descriptor_files
        ''cat/plugins/bar/'' = Inr meta \<and>
      meta ''id'' = Some (JStr ''bar'') \<and>
      meta ''name'' = Some (JStr ''The Bar'') \<and>
      meta ''version'' = Some (JStr ''0.0.1'')"
    using get_plugin_metadata_id_and_defaults
      [of example_camel_case descriptor_files "''cat/plugins/bar/''"
          "[''id'' \<mapsto> JStr ''other'', ''name'' \<mapsto> JStr ''The Bar'']",
       THEN conjunct2, THEN conjunct2, THEN conjunct1, THEN mp, OF document]
    by (auto simp: basename_normpath_bar)
  from no_file foo document bar show ?thesis by blast
qed



text \<open>
  Claim C8. The claim: for every plugin directory \<^verbatim>\<open>get_plugin_metadata\<close> takes the id
  from the base name of the directory, and gives the name, the version and the
  description their defaults when the descriptor is absent or lacks the field. The lemmas
  above are the claim for a directory without a descriptor, with a descriptor that is not
  JSON and with one that is a dictionary. A descriptor that parses to another value is
  not guarded: for the JSON text \<^verbatim>\<open>[]\<close> nothing is raised inside the \<^verbatim>\<open>try\<close>, the
  handler that logs \<^verbatim>\<open>defaulting to generated values\<close> does not run, and
  \<^verbatim>\<open>json_file_data.get("name", ...)\<close> raises \<^verbatim>\<open>AttributeError\<close>: the call returns
  no id and no defaults.
\<close>

theorem get_plugin_metadata_list_descriptor:
  "list_descriptor_files (path_join ''cat/plugins/foo/'' [''plugin.json'']) =
     Document (JArr []) \<and>
   get_plugin_metadata example_camel_case list_descriptor_files ''cat/plugins/foo/'' =
     Inl AttributeError \<and>
   raised (get_plugin_metadata example_camel_case list_descriptor_files ''cat/plugins/foo/'') =
     Some AttributeError"
  by (simp add: list_descriptor_files_def path_join_def get_plugin_metadata_def
      and_then_def raised_def)


section \<open>Properties of the authenticated static files\<close>

text \<open>
  Claim C10. For every request (a scope of type \<^verbatim>\<open>http\<close>) the first thing
  \<^verbatim>\<open>AuthStatic.__call__\<close> does is to check the value of the header
  \<^verbatim>\<open>access_token\<close>. For every scope, the file server is called at most once, only after
  that check and only when the check has returned; when it is not called, the call raises
  what the constructor of the request or the check raised. For a scope of another type
  the constructor of the request raises, and neither the check nor the file server is
  called.
\<close>

theorem auth_static_checks_key_first:
  "(scope_type sc = ''http'' \<longrightarrow>
      (\<exists>rest. fst (auth_static_call check_api_key static_files sc) =
         CheckApiKey (headers_get sc ''access_token'') # rest)) \<and>
   (\<forall>i < length (fst (auth_static_call check_api_key static_files sc)).
      (\<exists>served. fst (auth_static_call check_api_key static_files sc) ! i = StaticFiles served) \<longrightarrow>
      i = 1 \<and>
      fst (auth_static_call check_api_key static_files sc) ! 0 =
        CheckApiKey (headers_get sc ''access_token'') \<and>
      fst (auth_static_call check_api_key static_files sc) ! i = StaticFiles sc \<and>
      isl (check_api_key (headers_get sc ''access_token'')) = False \<and>
      snd (auth_static_call check_api_key static_files sc) = static_files sc) \<and>
   (StaticFiles sc \<notin> set (fst (auth_static_call check_api_key static_files sc)) \<longrightarrow>
      isl (snd (auth_static_call check_api_key static_files sc))) \<and>
   (scope_type sc \<noteq> ''http'' \<longrightarrow>
      auth_static_call check_api_key static_files sc = ([], Inl AssertionError))"
proof (cases "Request sc")
  case (Inl e)
  then show ?thesis
    by (auto simp: auth_static_call_def Request_def split: if_splits)
next
  case (Inr reqeust)
  then have req: "reqeust = sc" "scope_type sc = ''http''"
    by (auto simp: Request_def split: if_splits)
  show ?thesis
  proof (cases "check_api_key (headers_get sc ''access_token'')")
    case (Inl e)
    with Inr req show ?thesis
      by (auto simp: auth_static_call_def)
  next
    case (Inr key)
    with \<open>Request sc = Inr reqeust\<close> req show ?thesis
      by (auto simp: auth_static_call_def nth_Cons split: nat.splits)
  qed
qed

theorem auth_static_checks_key_first_witness:
  "scope_type request_with_key = ''http'' \<and>
   auth_static_call example_check example_static request_with_key =
     ([CheckApiKey (Some ''meow''), StaticFiles request_with_key], Inr ''/static/cat.png'') \<and>
   auth_static_call example_check example_static request_without_key =
     ([CheckApiKey None], Inl (HTTPException 403)) \<and>
   (\<exists>rest. fst (auth_static_call example_check example_static request_with_key) =
      CheckApiKey (headers_get request_with_key ''access_token'') # rest) \<and>
   scope_type websocket_with_key \<noteq> ''http'' \<and>
   auth_static_call example_check example_static websocket_with_key =
     ([], Inl AssertionError)"
proof -
  have http: "scope_type request_with_key = ''http''"
    by (simp add: request_with_key_def)
  have other: "scope_type websocket_with_key \<noteq> ''http''"
    by (simp add: websocket_with_key_def)
  have served: "auth_static_call example_check example_static request_with_key =
     ([CheckApiKey (Some ''meow''), StaticFiles request_with_key], Inr ''/static/cat.png'')"
    by (simp add: auth_static_call_def Request_def headers_get_def example_check_def
        example_static_def request_with_key_def)
  have refused: "auth_static_call example_check example_static request_without_key =
     ([CheckApiKey None], Inl (HTTPException 403))"
    by (simp add: auth_static_call_def Request_def headers_get_def example_check_def
        example_static_def request_without_key_def)
  from auth_static_checks_key_first
    [of request_with_key example_check example_static, THEN conjunct1, THEN mp, OF http]
    auth_static_checks_key_first
    [of websocket_with_key example_check example_static,
     THEN conjunct2, THEN conjunct2, THEN conjunct2, THEN mp, OF other]
  show ?thesis using http other served refused by blast
qed


section \<open>Properties of \<^verbatim>\<open>embed_tools\<close>\<close>

lemma fold_max_ge: "(a::nat) \<le> fold max xs a"
  by (induction xs arbitrary: a) (auto intro: order_trans [OF max.cobounded2])

lemma fold_max_mem: "(x::nat) \<in> set xs \<Longrightarrow> x \<le> fold max xs a"
proof (induction xs arbitrary: a)
  case Nil
  then show ?case by simp
next
  case (Cons y ys)
  show ?case
  proof (cases "x = y")
    case True
    have "max y a \<le> fold max ys (max y a)" by (rule fold_max_ge)
    with True show ?thesis by simp
  next
    case False
    with Cons show ?thesis by simp
  qed
qed

lemma fresh_id_greater: "p \<in> set ps \<Longrightarrow> point_id p < fresh_id ps"
  using fold_max_mem [of "point_id p" "map point_id ps" 0] by (simp add: fresh_id_def)

lemma fresh_id_unused: "filter (\<lambda>p. point_id p = fresh_id ps) ps = []"
  by (auto simp: filter_empty_conv dest: fresh_id_greater)

lemma add_texts_one:
  "add_texts embedder [text] [m] mem =
     ([fresh_id (points mem)],
      mem\<lparr>points := points mem @
              [\<lparr>point_id = fresh_id (points mem),
                payload = \<lparr>page_content = text, metadata = m\<rparr>,
                vector = embedder text\<rparr>],
          calls := calls mem @ [AddTexts [text]]\<rparr>)"
  by (simp add: add_texts_def Let_def)

lemma embed_missing_result:
  "embed_missing embedder now tools mem =
     Inr (map (with_embedding embedder) tools,
          mem\<lparr>points := points mem @ created_points embedder now tools (points mem),
              calls := calls mem @
                creation_calls (created_points embedder now tools (points mem))\<rparr>)"
proof (induction tools arbitrary: mem)
  case Nil
  then show ?case by (simp add: creation_calls_def)
next
  case (Cons tool tools)
  show ?case
  proof (cases "embedding tool")
    case None
    then show ?thesis
      by (simp add: Cons.IH add_texts_one retrieve_def fresh_id_unused Let_def
          with_embedding_def creation_calls_def)
  next
    case (Some v)
    then show ?thesis
      by (simp add: Cons.IH with_embedding_def)
  qed
qed

lemma created_points_contents:
  "map (\<lambda>p. page_content (payload p)) (created_points embedder now tools ps) =
     map description (filter (\<lambda>t. embedding t = None) tools)"
  by (induction tools arbitrary: ps) (simp_all add: Let_def)

lemma created_points_vector:
  "p \<in> set (created_points embedder now tools ps) \<Longrightarrow>
   vector p = embedder (page_content (payload p))"
  by (induction tools arbitrary: ps) (auto simp: Let_def split: if_splits)

lemma created_points_empty:
  "\<forall>t \<in> set tools. embedding t \<noteq> None \<Longrightarrow> created_points embedder now tools ps = []"
  by (induction tools arbitrary: ps) auto

lemma index_fold_None:
  "fold (\<lambda>(i, t) index. index(description t \<mapsto> i)) (enumerate n tools) m d = None \<longleftrightarrow>
   m d = None \<and> d \<notin> description ` set tools"
  by (induction tools arbitrary: n m) auto

lemma index_fold_Some:
  "fold (\<lambda>(i, t) index. index(description t \<mapsto> i)) (enumerate n tools) m d = Some i \<Longrightarrow>
   (m d = Some i \<and> d \<notin> description ` set tools) \<or>
   (n \<le> i \<and> i < n + length tools \<and> description (tools ! (i - n)) = d)"
proof (induction tools arbitrary: n m)
  case Nil
  then show ?case by simp
next
  case (Cons t ts)
  from Cons.prems have
    "fold (\<lambda>(i, t) index. index(description t \<mapsto> i)) (enumerate (Suc n) ts)
       (m(description t \<mapsto> n)) d = Some i"
    by (simp del: fun_upd_apply)
  from Cons.IH [OF this] show ?case
  proof
    assume "(m(description t \<mapsto> n)) d = Some i \<and> d \<notin> description ` set ts"
    then show ?thesis by (auto split: if_splits)
  next
    assume a: "Suc n \<le> i \<and> i < Suc n + length ts \<and> description (ts ! (i - Suc n)) = d"
    then have "(t # ts) ! (i - n) = ts ! (i - Suc n)"
      by (simp add: nth_Cons split: nat.splits) (metis Suc_diff_Suc Suc_le_lessD diff_Suc_Suc nat.inject)
    with a show ?thesis by auto
  qed
qed

lemma plugins_tools_index_None:
  "plugins_tools_index tools d = None \<longleftrightarrow> d \<notin> description ` set tools"
  by (simp add: plugins_tools_index_def index_fold_None)

lemma plugins_tools_index_Some:
  assumes "plugins_tools_index tools d = Some i"
  shows "i < length tools \<and> description (tools ! i) = d"
  using index_fold_Some [of 0 tools Map.empty d i] assms
  by (simp add: plugins_tools_index_def)

lemma plugins_tools_index_distinct:
  assumes "distinct (map description tools)" and "i < length tools"
  shows "plugins_tools_index tools (description (tools ! i)) = Some i"
proof -
  have "plugins_tools_index tools (description (tools ! i)) \<noteq> None"
    using assms(2) by (simp add: plugins_tools_index_None)
  then obtain j where j: "plugins_tools_index tools (description (tools ! i)) = Some j"
    by blast
  from plugins_tools_index_Some [OF j]
  have jlen: "j < length tools" and jdesc: "description (tools ! j) = description (tools ! i)"
    by simp_all
  have "map description tools ! j = map description tools ! i \<longleftrightarrow> j = i"
    using assms jlen by (intro nth_eq_iff_index_eq) simp_all
  with jlen jdesc assms(2) have "j = i" by simp
  with j show ?thesis by simp
qed

lemma find_snoc:
  "find P (xs @ [x]) = (case find P xs of None \<Rightarrow> (if P x then Some x else None) | Some y \<Rightarrow> Some y)"
  by (induction xs) auto

lemma assign_embeddings_deleted:
  "snd (assign_embeddings index records tools deleted) =
     deleted @ map point_id
       (filter (\<lambda>r. index (page_content (payload r)) = None) records)"
  by (induction records arbitrary: tools deleted)
    (auto simp: assign_embedding_def Let_def split: option.splits)

lemma assign_embeddings_length:
  "length (fst (assign_embeddings index records tools deleted)) = length tools"
  by (induction records arbitrary: tools deleted)
    (auto simp: assign_embedding_def Let_def split: option.splits)

lemma assign_embeddings_nth:
  "i < length tools \<Longrightarrow>
   fst (assign_embeddings index records tools deleted) ! i =
     (case find (\<lambda>r. index (page_content (payload r)) = Some i) (rev records) of
        None \<Rightarrow> tools ! i
      | Some r \<Rightarrow> (tools ! i)\<lparr>embedding := Some (vector r)\<rparr>)"
proof (induction records arbitrary: tools deleted)
  case Nil
  then show ?case by simp
next
  case (Cons r rs)
  show ?case
  proof (cases "index (page_content (payload r))")
    case None
    with Cons show ?thesis
      by (simp add: assign_embedding_def find_snoc split: option.splits)
  next
    case (Some k)
    let ?tools' = "tools[k := (tools ! k)\<lparr>embedding := Some (vector r)\<rparr>]"
    have len: "i < length ?tools'" using Cons.prems by simp
    have "fst (assign_embeddings index (r # rs) tools deleted) ! i =
        fst (assign_embeddings index rs ?tools' deleted) ! i"
      using Some by (simp add: assign_embedding_def)
    also have "\<dots> =
        (case find (\<lambda>r. index (page_content (payload r)) = Some i) (rev rs) of
           None \<Rightarrow> ?tools' ! i
         | Some r' \<Rightarrow> (?tools' ! i)\<lparr>embedding := Some (vector r')\<rparr>)"
      by (rule Cons.IH [OF len])
    also have "\<dots> =
        (case find (\<lambda>r. index (page_content (payload r)) = Some i) (rev (r # rs)) of
           None \<Rightarrow> tools ! i
         | Some r' \<Rightarrow> (tools ! i)\<lparr>embedding := Some (vector r')\<rparr>)"
      using Some Cons.prems
      by (auto simp: find_snoc nth_list_update split: option.splits)
    finally show ?thesis .
  qed
qed

lemma assign_embeddings_stale:
  "snd (assign_embeddings (plugins_tools_index tools) ps tools []) = stale_ids tools ps"
  by (simp add: assign_embeddings_deleted stale_ids_def plugins_tools_index_None)

lemma kept_points_no_stale: "stale_ids tools ps = [] \<Longrightarrow> kept_points tools ps = ps"
  by (simp add: kept_points_def)

lemma embed_tools_result:
  "embed_tools embedder now tools mem =
     Inr (map (with_embedding embedder) (matched_tools tools (points mem)),
          \<lparr>points = kept_points tools (points mem) @
             created_points embedder now (matched_tools tools (points mem))
               (kept_points tools (points mem)),
           calls = calls mem @ GetAllPoints #
             (if stale_ids tools (points mem) = [] then []
              else [Delete (stale_ids tools (points mem))]) @
             creation_calls
               (created_points embedder now (matched_tools tools (points mem))
                  (kept_points tools (points mem)))\<rparr>)"
proof -
  obtain tools1 deleted where
    loop: "assign_embeddings (plugins_tools_index tools) (points mem) tools [] = (tools1, deleted)"
    by (cases "assign_embeddings (plugins_tools_index tools) (points mem) tools []")
  then have tools1: "tools1 = matched_tools tools (points mem)"
    and deleted: "deleted = stale_ids tools (points mem)"
    using assign_embeddings_stale [of tools "points mem"]
    by (simp_all add: matched_tools_def)
  show ?thesis
  proof (cases "stale_ids tools (points mem) = []")
    case True
    then show ?thesis
      using loop tools1 deleted
      by (simp add: embed_tools_def get_all_points_def embed_missing_result
          kept_points_no_stale)
  next
    case False
    then show ?thesis
      using loop tools1 deleted
      by (simp add: embed_tools_def get_all_points_def delete_points_def
          embed_missing_result kept_points_def)
  qed
qed

lemma matched_tools_length: "length (matched_tools tools ps) = length tools"
  by (simp add: matched_tools_def assign_embeddings_length)

lemma matched_tools_nth:
  "i < length tools \<Longrightarrow>
   matched_tools tools ps ! i =
     (case find (\<lambda>r. plugins_tools_index tools (page_content (payload r)) = Some i) (rev ps) of
        None \<Rightarrow> tools ! i
      | Some r \<Rightarrow> (tools ! i)\<lparr>embedding := Some (vector r)\<rparr>)"
  by (simp add: matched_tools_def assign_embeddings_nth)

lemma matched_tools_description:
  "map description (matched_tools tools ps) = map description tools"
  by (rule nth_equalityI)
    (auto simp: matched_tools_length matched_tools_nth split: option.splits)

lemma with_embedding_description:
  "map description (map (with_embedding embedder) tools) = map description tools"
  by (simp add: with_embedding_def)

lemma creation_calls_no_delete: "Delete ids \<notin> set (creation_calls ps)"
  by (auto simp: creation_calls_def)

lemma created_points_described:
  "p \<in> set (created_points embedder now tools ps) \<Longrightarrow>
   page_content (payload p) \<in> description ` set tools"
proof -
  assume "p \<in> set (created_points embedder now tools ps)"
  then have "page_content (payload p) \<in>
      set (map (\<lambda>p. page_content (payload p)) (created_points embedder now tools ps))"
    by simp
  then show ?thesis
    unfolding created_points_contents by auto
qed

lemma kept_points_described:
  "p \<in> set (kept_points tools ps) \<Longrightarrow> page_content (payload p) \<in> description ` set tools"
  by (auto simp: kept_points_def stale_ids_def)

text \<open>
  Claim C9. A stored point whose text is no tool's description does not stop
  \<^verbatim>\<open>embed_tools\<close>: the run returns, the id of every such point is in the list to be
  deleted, and the list is deleted in one call, the only call of \<^verbatim>\<open>delete\<close> in the run
  (there is none when the list is empty). After the run no such point is left.
\<close>

theorem embed_tools_deletes_stale_points:
  "\<exists>tools' mem' later.
     embed_tools embedder now tools mem = Inr (tools', mem') \<and>
     calls mem' = calls mem @ GetAllPoints #
       (if filter (\<lambda>r. page_content (payload r) \<notin> description ` set tools) (points mem) = []
        then []
        else [Delete (map point_id
                (filter (\<lambda>r. page_content (payload r) \<notin> description ` set tools)
                   (points mem)))]) @ later \<and>
     (\<forall>ids. Delete ids \<notin> set later) \<and>
     (\<forall>p \<in> set (points mem').
        page_content (payload p) \<in> description ` set tools)"
proof -
  let ?tools1 = "matched_tools tools (points mem)"
  let ?kept = "kept_points tools (points mem)"
  let ?created = "created_points embedder now ?tools1 ?kept"
  have described: "\<forall>p \<in> set (?kept @ ?created).
      page_content (payload p) \<in> description ` set tools"
  proof
    fix p assume "p \<in> set (?kept @ ?created)"
    then consider "p \<in> set ?kept" | "p \<in> set ?created" by auto
    then show "page_content (payload p) \<in> description ` set tools"
    proof cases
      case 1
      then show ?thesis by (rule kept_points_described)
    next
      case 2
      then have "page_content (payload p) \<in> description ` set ?tools1"
        by (rule created_points_described)
      also have "description ` set ?tools1 = set (map description ?tools1)" by simp
      also have "\<dots> = description ` set tools"
        unfolding matched_tools_description by simp
      finally show ?thesis .
    qed
  qed
  have stale: "(stale_ids tools (points mem) = []) =
      (filter (\<lambda>r. page_content (payload r) \<notin> description ` set tools) (points mem) = [])"
    by (simp add: stale_ids_def)
  show ?thesis
    apply (rule exI [of _ "map (with_embedding embedder) ?tools1"])
    apply (rule exI [of _ "\<lparr>points = ?kept @ ?created,
         calls = calls mem @ GetAllPoints #
           (if stale_ids tools (points mem) = [] then []
            else [Delete (stale_ids tools (points mem))]) @ creation_calls ?created\<rparr>"])
    apply (rule exI [of _ "creation_calls ?created"])
    using described stale
    apply (simp add: embed_tools_result creation_calls_no_delete)
    apply (simp add: stale_ids_def)
    done
qed

theorem embed_tools_deletes_stale_points_witness:
  "(\<exists>tools' mem'.
      embed_tools length 1700000000 example_tools example_memory = Inr (tools', mem') \<and>
      calls mem' =
        [GetAllPoints, Delete [2, 3], AddTexts [''get the time''], Retrieve [2]] \<and>
      map (\<lambda>p. page_content (payload p)) (points mem') = [''search web'', ''get the time''] \<and>
      map embedding tools' = [Some 10, Some 12])"
proof -
  have run: "embed_tools length 1700000000 example_tools example_memory =
    Inr ([\<lparr>name = ''search_web'', description = ''search web'', docstring = ''Search the web.'',
           embedding = Some 10\<rparr>,
          \<lparr>name = ''get_the_time'', description = ''get the time'',
           docstring = ''What time is it?'', embedding = Some 12\<rparr>],
         \<lparr>points =
            [\<lparr>point_id = 1, payload = \<lparr>page_content = ''search web'', metadata = Map.empty\<rparr>,
              vector = 10\<rparr>,
             \<lparr>point_id = 2,
              payload = \<lparr>page_content = ''get the time'',
                metadata = [''source'' \<mapsto> JStr ''tool'', ''when'' \<mapsto> JNum 1700000000,
                  ''name'' \<mapsto> JStr ''get_the_time'', ''docstring'' \<mapsto> JStr ''What time is it?'']\<rparr>,
              vector = 12\<rparr>],
          calls = [GetAllPoints, Delete [2, 3], AddTexts [''get the time''], Retrieve [2]]\<rparr>)"
    by (simp add: embed_tools_def example_tools_def example_memory_def get_all_points_def
        plugins_tools_index_def assign_embedding_def delete_points_def add_texts_def
        retrieve_def fresh_id_def Let_def)
  from embed_tools_deletes_stale_points [of length 1700000000 example_tools example_memory]
  show ?thesis unfolding run by simp
qed

lemma index_fold_cong:
  "map description a = map description b \<Longrightarrow>
   fold (\<lambda>(i, t) index. index(description t \<mapsto> i)) (enumerate n a) m =
   fold (\<lambda>(i, t) index. index(description t \<mapsto> i)) (enumerate n b) m"
proof (induction a arbitrary: b n m)
  case Nil
  then show ?case by simp
next
  case (Cons x xs)
  then obtain y ys where b: "b = y # ys" and xy: "description x = description y"
    and rest: "map description xs = map description ys"
    by (cases b) auto
  have "fold (\<lambda>(i, t) index. index(description t \<mapsto> i)) (enumerate n (x # xs)) m =
      fold (\<lambda>(i, t) index. index(description t \<mapsto> i)) (enumerate (Suc n) xs)
        (m(description x \<mapsto> n))"
    by simp
  also have "\<dots> =
      fold (\<lambda>(i, t) index. index(description t \<mapsto> i)) (enumerate (Suc n) ys)
        (m(description x \<mapsto> n))"
    by (rule Cons.IH [OF rest])
  also have "\<dots> =
      fold (\<lambda>(i, t) index. index(description t \<mapsto> i)) (enumerate n (y # ys)) m"
    unfolding xy by simp
  finally show ?case unfolding b .
qed

lemma plugins_tools_index_cong:
  "map description a = map description b \<Longrightarrow> plugins_tools_index a = plugins_tools_index b"
  unfolding plugins_tools_index_def by (rule index_fold_cong)

lemma update_same_embedding: "embedding t = Some v \<Longrightarrow> t\<lparr>embedding := Some v\<rparr> = t"
  by (cases t) simp

lemma matched_tools_embedded:
  assumes "\<forall>t \<in> set tools. embedding t \<noteq> None"
  shows "\<forall>t \<in> set (matched_tools tools ps). embedding t \<noteq> None"
proof
  fix t assume "t \<in> set (matched_tools tools ps)"
  then obtain i where i: "i < length tools" "t = matched_tools tools ps ! i"
    by (auto simp: in_set_conv_nth matched_tools_length)
  with assms have "embedding (tools ! i) \<noteq> None" by simp
  with i show "embedding t \<noteq> None"
    by (simp add: matched_tools_nth split: option.splits)
qed

lemma with_embedding_embedded: "embedding (with_embedding embedder t) \<noteq> None"
  by (simp add: with_embedding_def)

lemma with_embedding_idle:
  "\<forall>t \<in> set tools. embedding t \<noteq> None \<Longrightarrow> map (with_embedding embedder) tools = tools"
  by (induction tools) (auto simp: with_embedding_def)

lemma stale_ids_empty:
  "\<forall>p \<in> set ps. page_content (payload p) \<in> description ` set tools \<Longrightarrow>
   stale_ids tools ps = []"
  by (auto simp: stale_ids_def filter_empty_conv)

lemma embed_tools_described:
  assumes "embed_tools embedder now tools mem = Inr (tools1, mem1)"
  shows "map description tools1 = map description tools"
    and "\<forall>t \<in> set tools1. embedding t \<noteq> None"
    and "\<forall>p \<in> set (points mem1). page_content (payload p) \<in> description ` set tools1"
proof -
  from assms have tools1: "tools1 = map (with_embedding embedder) (matched_tools tools (points mem))"
    and points1: "points mem1 = kept_points tools (points mem) @
        created_points embedder now (matched_tools tools (points mem))
          (kept_points tools (points mem))"
    by (auto simp: embed_tools_result)
  show d: "map description tools1 = map description tools"
    unfolding tools1 with_embedding_description matched_tools_description ..
  show "\<forall>t \<in> set tools1. embedding t \<noteq> None"
  proof
    fix t assume "t \<in> set tools1"
    then obtain u where "t = with_embedding embedder u" unfolding tools1 by auto
    then show "embedding t \<noteq> None" by (simp add: with_embedding_embedded)
  qed
  have "description ` set tools1 = set (map description tools1)" by simp
  also have "\<dots> = description ` set tools" unfolding d by simp
  finally have same: "description ` set tools1 = description ` set tools" .
  have "description ` set (matched_tools tools (points mem)) =
      set (map description (matched_tools tools (points mem)))" by simp
  also have "\<dots> = description ` set tools" unfolding matched_tools_description by simp
  finally have matched: "description ` set (matched_tools tools (points mem)) =
      description ` set tools" .
  show "\<forall>p \<in> set (points mem1). page_content (payload p) \<in> description ` set tools1"
  proof
    fix p assume "p \<in> set (points mem1)"
    then consider "p \<in> set (kept_points tools (points mem))"
      | "p \<in> set (created_points embedder now (matched_tools tools (points mem))
            (kept_points tools (points mem)))"
      unfolding points1 by auto
    then have "page_content (payload p) \<in> description ` set tools"
    proof cases
      case 1
      then show ?thesis by (rule kept_points_described)
    next
      case 2
      then have "page_content (payload p) \<in>
          description ` set (matched_tools tools (points mem))"
        by (rule created_points_described)
      then show ?thesis unfolding matched .
    qed
    then show "page_content (payload p) \<in> description ` set tools1"
      unfolding same .
  qed
qed

lemma embed_tools_again:
  assumes "embed_tools embedder now tools mem = Inr (tools1, mem1)"
  shows "embed_tools embedder2 now2 tools1 mem1 =
     Inr (matched_tools tools1 (points mem1),
          \<lparr>points = points mem1, calls = calls mem1 @ [GetAllPoints]\<rparr>)"
proof -
  note facts = embed_tools_described [OF assms]
  have stale: "stale_ids tools1 (points mem1) = []"
    using facts(3) by (rule stale_ids_empty)
  have embedded: "\<forall>t \<in> set (matched_tools tools1 (points mem1)). embedding t \<noteq> None"
    using facts(2) by (rule matched_tools_embedded)
  show ?thesis
    by (simp add: embed_tools_result stale kept_points_no_stale
        created_points_empty [OF embedded] with_embedding_idle [OF embedded]
        creation_calls_def)
qed


lemma find_append_cases:
  "find P (xs @ ys) = (case find P xs of None \<Rightarrow> find P ys | Some x \<Rightarrow> Some x)"
  by (induction xs) auto

lemma find_filter_implied:
  "(\<And>x. P x \<Longrightarrow> Q x) \<Longrightarrow> find P (filter Q xs) = find P xs"
  by (induction xs) auto

lemma find_Some_holds: "find P xs = Some x \<Longrightarrow> x \<in> set xs \<and> P x"
  by (induction xs) (auto split: if_splits)

lemma kept_points_distinct:
  assumes "distinct (map point_id ps)"
  shows "kept_points tools ps =
     filter (\<lambda>p. page_content (payload p) \<in> description ` set tools) ps"
  unfolding kept_points_def
proof (rule filter_cong [OF refl])
  fix p assume p: "p \<in> set ps"
  have inj: "inj_on point_id (set ps)"
    using assms by (simp add: distinct_map)
  show "(point_id p \<notin> set (stale_ids tools ps)) =
      (page_content (payload p) \<in> description ` set tools)"
  proof
    assume "point_id p \<notin> set (stale_ids tools ps)"
    with p show "page_content (payload p) \<in> description ` set tools"
      by (auto simp: stale_ids_def)
  next
    assume described: "page_content (payload p) \<in> description ` set tools"
    show "point_id p \<notin> set (stale_ids tools ps)"
    proof
      assume "point_id p \<in> set (stale_ids tools ps)"
      then obtain q where q: "q \<in> set ps" "point_id q = point_id p"
          "page_content (payload q) \<notin> description ` set tools"
        by (auto simp: stale_ids_def)
      with inj p have "q = p" by (auto dest: inj_onD)
      with q described show False by simp
    qed
  qed
qed

lemma matched_tools_again:
  fixes tools :: "'v tool list"
  assumes run: "embed_tools embedder now tools mem = Inr (tools1, mem1)"
    and descs: "distinct (map description tools)"
    and ids: "distinct (map point_id (points mem))"
  shows "matched_tools tools1 (points mem1) = tools1"
proof (rule nth_equalityI)
  let ?ps = "points mem"
  let ?matched = "matched_tools tools ?ps"
  let ?kept = "kept_points tools ?ps"
  let ?created = "created_points embedder now ?matched ?kept"
  let ?index = "plugins_tools_index tools"
  from run have tools1: "tools1 = map (with_embedding embedder) ?matched"
    and points1: "points mem1 = ?kept @ ?created"
    by (auto simp: embed_tools_result)
  have same_descs: "map description tools1 = map description tools"
    using embed_tools_described(1) [OF run] .
  have index1: "plugins_tools_index tools1 = ?index"
    using same_descs by (rule plugins_tools_index_cong)
  have len1: "length tools1 = length tools"
    using same_descs by (metis length_map)
  show "length (matched_tools tools1 (points mem1)) = length tools1"
    by (rule matched_tools_length)
  fix i assume "i < length (matched_tools tools1 (points mem1))"
  then have i: "i < length tools" by (simp add: matched_tools_length len1)
  have nth1: "tools1 ! i = with_embedding embedder (?matched ! i)"
    unfolding tools1 using i by (simp add: matched_tools_length)
  have matched_descr: "description (?matched ! i) = description (tools ! i)"
    using i matched_tools_description [of tools ?ps]
    by (metis length_map nth_map matched_tools_length)
  have found: "embedding (tools1 ! i) = Some (vector r)"
    if r: "find (\<lambda>r. ?index (page_content (payload r)) = Some i) (rev (points mem1)) = Some r"
    for r
  proof (cases "find (\<lambda>r. ?index (page_content (payload r)) = Some i) (rev ?created)")
    case (Some r')
    with r have "r' = r"
      by (simp add: points1 find_append_cases)
    with Some have created: "r \<in> set ?created"
      and at_i: "?index (page_content (payload r)) = Some i"
      using find_Some_holds [of "\<lambda>r. ?index (page_content (payload r)) = Some i" "rev ?created" r]
      by simp_all
    from created have "page_content (payload r) \<in>
        set (map (\<lambda>p. page_content (payload p)) ?created)"
      by simp
    then obtain t where t: "t \<in> set ?matched" "embedding t = None"
        "description t = page_content (payload r)"
      unfolding created_points_contents by auto
    then obtain j where j: "j < length tools" "t = ?matched ! j"
      by (auto simp: in_set_conv_nth matched_tools_length)
    have "description (?matched ! j) = description (tools ! j)"
      using j(1) matched_tools_description [of tools ?ps]
      by (metis length_map nth_map matched_tools_length)
    with t j have dj: "description (tools ! j) = page_content (payload r)" by simp
    from plugins_tools_index_Some [OF at_i]
    have di: "description (tools ! i) = page_content (payload r)" by simp
    have "map description tools ! j = map description tools ! i \<longleftrightarrow> j = i"
      using descs i j(1) by (intro nth_eq_iff_index_eq) simp_all
    with di dj i j(1) have "j = i" by simp
    with t j have none: "embedding (?matched ! i) = None" by simp
    have "vector r = embedder (page_content (payload r))"
      using created by (rule created_points_vector)
    with none di matched_descr show ?thesis
      by (simp add: nth1 with_embedding_def)
  next
    case None
    with r have kept: "find (\<lambda>r. ?index (page_content (payload r)) = Some i) (rev ?kept) = Some r"
      by (simp add: points1 find_append_cases)
    have "rev ?kept =
        filter (\<lambda>p. page_content (payload p) \<in> description ` set tools) (rev ?ps)"
      by (simp add: kept_points_distinct [OF ids] rev_filter)
    moreover have "find (\<lambda>r. ?index (page_content (payload r)) = Some i)
        (filter (\<lambda>p. page_content (payload p) \<in> description ` set tools) (rev ?ps)) =
        find (\<lambda>r. ?index (page_content (payload r)) = Some i) (rev ?ps)"
    proof (rule find_filter_implied)
      fix x assume "?index (page_content (payload x)) = Some i"
      then have "?index (page_content (payload x)) \<noteq> None" by simp
      then show "page_content (payload x) \<in> description ` set tools"
        by (simp add: plugins_tools_index_None)
    qed
    ultimately have "find (\<lambda>r. ?index (page_content (payload r)) = Some i) (rev ?ps) = Some r"
      using kept by simp
    then have "?matched ! i = (tools ! i)\<lparr>embedding := Some (vector r)\<rparr>"
      using i by (simp add: matched_tools_nth)
    then show ?thesis
      by (simp add: nth1 with_embedding_def)
  qed
  have i1: "i < length tools1" using i len1 by simp
  show "matched_tools tools1 (points mem1) ! i = tools1 ! i"
  proof (cases "find (\<lambda>r. ?index (page_content (payload r)) = Some i) (rev (points mem1))")
    case None
    then show ?thesis
      using i1 by (simp add: matched_tools_nth index1)
  next
    case (Some r)
    from found [OF Some] have "(tools1 ! i)\<lparr>embedding := Some (vector r)\<rparr> = tools1 ! i"
      by (rule update_same_embedding)
    with Some show ?thesis
      using i1 by (simp add: matched_tools_nth index1)
  qed
qed

lemmas embed_tools_eval =
  embed_tools_def get_all_points_def plugins_tools_index_def assign_embedding_def
  delete_points_def add_texts_def retrieve_def fresh_id_def Let_def

lemma example_run:
  "embed_tools length 1700000000 example_tools example_memory =
     Inr (example_tools_embedded, example_memory_synced)"
  by (simp add: embed_tools_eval example_tools_def example_memory_def
      example_tools_embedded_def example_memory_synced_def)

text \<open>
  Claim C2, as the code has it. A second run of \<^verbatim>\<open>embed_tools\<close>, right after a
  first one, calls the vector store once, to list the points: it creates nothing, deletes
  nothing and leaves the stored points as they are. It leaves the descriptions of the
  tools as they are, and the tools themselves when no two tools have the same description
  and the ids of the stored points are pairwise distinct.
\<close>

theorem embed_tools_second_run:
  fixes tools :: "'v tool list"
  assumes "embed_tools embedder now tools mem = Inr (tools1, mem1)"
  shows "\<exists>tools2 mem2.
     embed_tools embedder now2 tools1 mem1 = Inr (tools2, mem2) \<and>
     calls mem2 = calls mem1 @ [GetAllPoints] \<and>
     points mem2 = points mem1 \<and>
     map description tools2 = map description tools1 \<and>
     (distinct (map description tools) \<and> distinct (map point_id (points mem)) \<longrightarrow>
        tools2 = tools1)"
proof -
  have again: "embed_tools embedder now2 tools1 mem1 =
      Inr (matched_tools tools1 (points mem1),
           \<lparr>points = points mem1, calls = calls mem1 @ [GetAllPoints]\<rparr>)"
    using assms by (rule embed_tools_again)
  have "distinct (map description tools) \<and> distinct (map point_id (points mem)) \<longrightarrow>
      matched_tools tools1 (points mem1) = tools1"
    using matched_tools_again [OF assms] by blast
  with again show ?thesis
    by (simp add: matched_tools_description)
qed

theorem embed_tools_second_run_witness:
  "embed_tools length 1700000000 example_tools example_memory =
     Inr (example_tools_embedded, example_memory_synced) \<and>
   distinct (map description example_tools) \<and>
   distinct (map point_id (points example_memory)) \<and>
   (\<exists>tools2 mem2.
      embed_tools length 1700000060 example_tools_embedded example_memory_synced =
        Inr (tools2, mem2) \<and>
      calls mem2 = calls example_memory_synced @ [GetAllPoints] \<and>
      points mem2 = points example_memory_synced \<and>
      tools2 = example_tools_embedded)"
proof -
  have descs: "distinct (map description example_tools)"
    by (simp add: example_tools_def)
  have ids: "distinct (map point_id (points example_memory))"
    by (simp add: example_memory_def)
  from embed_tools_second_run [OF example_run, of 1700000060]
  show ?thesis using example_run descs ids by blast
qed

theorem embed_tools_second_run_counterexample:
  "embeddings_after (embed_tools length 1700000000 twin_tools twin_memory) =
     Some [Some 10, Some 7] \<and>
   embeddings_after (embed_tools_twice length 1700000000 1700000060 twin_tools twin_memory) =
     Some [Some 10, Some 10]"
  by (simp add: embeddings_after_def embed_tools_twice_def embed_tools_eval
      twin_tools_def twin_memory_def)

lemma map_filter_nth:
  "length xs = length ys \<Longrightarrow>
   (\<And>i. i < length xs \<Longrightarrow> P (xs ! i) = Q (ys ! i) \<and> f (xs ! i) = g (ys ! i)) \<Longrightarrow>
   map f (filter P xs) = map g (filter Q ys)"
proof (induction xs ys rule: list_induct2)
  case Nil
  then show ?case by simp
next
  case (Cons x xs y ys)
  have head: "P x = Q y \<and> f x = g y"
    using Cons.prems [of 0] by simp
  have "\<And>i. i < length xs \<Longrightarrow> P (xs ! i) = Q (ys ! i) \<and> f (xs ! i) = g (ys ! i)"
    using Cons.prems [of "Suc _"] by simp
  then have "map f (filter P xs) = map g (filter Q ys)"
    by (rule Cons.IH)
  with head show ?case by simp
qed

lemma plugins_tools_index_iff:
  assumes "distinct (map description tools)"
  shows "plugins_tools_index tools d = Some i \<longleftrightarrow> i < length tools \<and> description (tools ! i) = d"
  using plugins_tools_index_Some [of tools d i] plugins_tools_index_distinct [OF assms, of i]
  by auto

lemma matched_tools_unembedded:
  assumes descs: "distinct (map description tools)"
    and known: "\<forall>t \<in> set tools. embedding t \<noteq> None \<longrightarrow>
        description t \<in> (\<lambda>p. page_content (payload p)) ` set ps"
    and i: "i < length tools"
  shows "embedding (matched_tools tools ps ! i) = None \<longleftrightarrow>
     description (tools ! i) \<notin> (\<lambda>p. page_content (payload p)) ` set ps"
proof (cases "find (\<lambda>r. plugins_tools_index tools (page_content (payload r)) = Some i) (rev ps)")
  case None
  then have "\<forall>r \<in> set ps. plugins_tools_index tools (page_content (payload r)) \<noteq> Some i"
    by (simp add: find_None_iff)
  then have absent: "description (tools ! i) \<notin> (\<lambda>p. page_content (payload p)) ` set ps"
    using i by (auto simp: plugins_tools_index_iff [OF descs])
  with known i have "embedding (tools ! i) = None"
    using nth_mem [OF i] by blast
  with None absent i show ?thesis
    by (simp add: matched_tools_nth)
next
  case (Some r)
  then have "r \<in> set (rev ps)" "plugins_tools_index tools (page_content (payload r)) = Some i"
    using find_Some_holds [of _ "rev ps" r] by blast+
  then have "description (tools ! i) \<in> (\<lambda>p. page_content (payload p)) ` set ps"
    by (auto simp: plugins_tools_index_iff [OF descs])
  with Some i show ?thesis
    by (simp add: matched_tools_nth)
qed

lemma embed_tools_contents:
  fixes tools :: "'v tool list"
  assumes run: "embed_tools embedder now tools mem = Inr (tools', mem')"
    and descs: "distinct (map description tools)"
    and ids: "distinct (map point_id (points mem))"
    and known: "\<forall>t \<in> set tools. embedding t \<noteq> None \<longrightarrow>
        description t \<in> (\<lambda>p. page_content (payload p)) ` set (points mem)"
  shows "map (\<lambda>p. page_content (payload p)) (points mem') =
     filter (\<lambda>d. d \<in> set (map description tools))
       (map (\<lambda>p. page_content (payload p)) (points mem)) @
     filter (\<lambda>d. d \<notin> set (map (\<lambda>p. page_content (payload p)) (points mem)))
       (map description tools)"
proof -
  let ?ps = "points mem"
  let ?matched = "matched_tools tools ?ps"
  from run have points': "points mem' = kept_points tools ?ps @
      created_points embedder now ?matched (kept_points tools ?ps)"
    by (auto simp: embed_tools_result)
  have kept: "map (\<lambda>p. page_content (payload p)) (kept_points tools ?ps) =
      filter (\<lambda>d. d \<in> set (map description tools)) (map (\<lambda>p. page_content (payload p)) ?ps)"
    by (simp add: kept_points_distinct [OF ids] filter_map comp_def)
  have "map description (filter (\<lambda>t. embedding t = None) ?matched) =
      map (\<lambda>d. d) (filter (\<lambda>d. d \<notin> set (map (\<lambda>p. page_content (payload p)) ?ps))
        (map description tools))"
  proof (rule map_filter_nth)
    show "length ?matched = length (map description tools)"
      by (simp add: matched_tools_length)
  next
    fix i assume "i < length ?matched"
    then have i: "i < length tools" by (simp add: matched_tools_length)
    have "description (?matched ! i) = description (tools ! i)"
      using i matched_tools_description [of tools ?ps]
      by (metis length_map nth_map matched_tools_length)
    with matched_tools_unembedded [OF descs known i] i
    show "(embedding (?matched ! i) = None) =
        (map description tools ! i \<notin> set (map (\<lambda>p. page_content (payload p)) ?ps)) \<and>
        description (?matched ! i) = map description tools ! i"
      by simp
  qed
  then have created: "map (\<lambda>p. page_content (payload p))
      (created_points embedder now ?matched (kept_points tools ?ps)) =
      filter (\<lambda>d. d \<notin> set (map (\<lambda>p. page_content (payload p)) ?ps)) (map description tools)"
    by (simp add: created_points_contents)
  show ?thesis
    unfolding points' map_append kept created ..
qed

lemma distinct_split_filters:
  assumes "distinct xs" and "distinct ys"
  shows "distinct (filter (\<lambda>d. d \<in> set ys) xs @ filter (\<lambda>d. d \<notin> set xs) ys)"
    and "set (filter (\<lambda>d. d \<in> set ys) xs @ filter (\<lambda>d. d \<notin> set xs) ys) = set ys"
  using assms by auto

text \<open>
  Claim C1, as the code has it. \<^verbatim>\<open>embed_tools\<close> always returns, and then every tool
  has an embedding. The stored points are as many as the tools, and the text of a point is
  a bijection between the stored points and the descriptions of the tools, when no two
  tools have the same description, no two stored points have the same text or the same
  id, and every tool that comes with an embedding has a stored point with its
  description.
\<close>

theorem embed_tools_bijection:
  fixes tools :: "'v tool list"
  shows "\<exists>tools' mem'.
     embed_tools embedder now tools mem = Inr (tools', mem') \<and>
     (\<forall>t \<in> set tools'. embedding t \<noteq> None) \<and>
     map description tools' = map description tools \<and>
     (distinct (map description tools) \<and>
      distinct (map (\<lambda>p. page_content (payload p)) (points mem)) \<and>
      distinct (map point_id (points mem)) \<and>
      (\<forall>t \<in> set tools. embedding t \<noteq> None \<longrightarrow>
         description t \<in> (\<lambda>p. page_content (payload p)) ` set (points mem)) \<longrightarrow>
        length (points mem') = length tools' \<and>
        distinct (points mem') \<and>
        bij_betw (\<lambda>p. page_content (payload p)) (set (points mem'))
          (description ` set tools'))"
proof -
  obtain tools' mem' where run: "embed_tools embedder now tools mem = Inr (tools', mem')"
    by (simp add: embed_tools_result)
  note facts = embed_tools_described [OF run]
  have "length (points mem') = length tools' \<and> distinct (points mem') \<and>
      bij_betw (\<lambda>p. page_content (payload p)) (set (points mem')) (description ` set tools')"
    if descs: "distinct (map description tools)"
      and texts: "distinct (map (\<lambda>p. page_content (payload p)) (points mem))"
      and ids: "distinct (map point_id (points mem))"
      and known: "\<forall>t \<in> set tools. embedding t \<noteq> None \<longrightarrow>
         description t \<in> (\<lambda>p. page_content (payload p)) ` set (points mem)"
  proof -
    note contents = embed_tools_contents [OF run descs ids known]
    have d: "distinct (map (\<lambda>p. page_content (payload p)) (points mem'))"
      unfolding contents using texts descs by (rule distinct_split_filters(1))
    have s: "set (map (\<lambda>p. page_content (payload p)) (points mem')) =
        set (map description tools)"
      unfolding contents using texts descs by (rule distinct_split_filters(2))
    have "length (points mem') =
        card (set (map (\<lambda>p. page_content (payload p)) (points mem')))"
      using distinct_card [OF d] by simp
    also have "\<dots> = card (set (map description tools))"
      unfolding s ..
    also have "\<dots> = length tools"
      using distinct_card [OF descs] by simp
    also have "\<dots> = length tools'"
      using facts(1) by (metis length_map)
    finally have len: "length (points mem') = length tools'" .
    from d have inj: "inj_on (\<lambda>p. page_content (payload p)) (set (points mem'))"
      and dp: "distinct (points mem')"
      by (simp_all add: distinct_map)
    have "(\<lambda>p. page_content (payload p)) ` set (points mem') =
        set (map (\<lambda>p. page_content (payload p)) (points mem'))"
      by simp
    also have "\<dots> = set (map description tools')"
      unfolding s facts(1) ..
    also have "\<dots> = description ` set tools'" by simp
    finally have "(\<lambda>p. page_content (payload p)) ` set (points mem') =
        description ` set tools'" .
    with inj have "bij_betw (\<lambda>p. page_content (payload p)) (set (points mem'))
        (description ` set tools')"
      by (simp add: bij_betw_def)
    with len dp show ?thesis by simp
  qed
  with run facts(1) facts(2) show ?thesis by blast
qed

theorem embed_tools_bijection_witness:
  "distinct (map description example_tools) \<and>
   distinct (map (\<lambda>p. page_content (payload p)) (points example_memory)) \<and>
   distinct (map point_id (points example_memory)) \<and>
   embed_tools length 1700000000 example_tools example_memory =
     Inr (example_tools_embedded, example_memory_synced) \<and>
   length (points example_memory_synced) = length example_tools_embedded \<and>
   bij_betw (\<lambda>p. page_content (payload p)) (set (points example_memory_synced))
     (description ` set example_tools_embedded)"
proof -
  have descs: "distinct (map description example_tools)"
    by (simp add: example_tools_def)
  have texts: "distinct (map (\<lambda>p. page_content (payload p)) (points example_memory))"
    by (simp add: example_memory_def)
  have ids: "distinct (map point_id (points example_memory))"
    by (simp add: example_memory_def)
  have known: "\<forall>t \<in> set example_tools. embedding t \<noteq> None \<longrightarrow>
      description t \<in> (\<lambda>p. page_content (payload p)) ` set (points example_memory)"
    by (simp add: example_tools_def)
  from embed_tools_bijection [of length 1700000000 example_tools example_memory]
  show ?thesis using descs texts ids known by (auto simp: example_run)
qed

theorem embed_tools_bijection_counterexample:
  "stored_and_registered (embed_tools length 1700000000 one_tool doubled_memory) =
     Some (2, 1) \<and>
   stored_and_registered (embed_tools length 1700000000 one_tool_embedded empty_memory) =
     Some (0, 1) \<and>
   stored_and_registered (embed_tools length 1700000000 twin_tools doubled_memory) =
     Some (3, 2)"
  by (simp add: stored_and_registered_def embed_tools_eval one_tool_def doubled_memory_def
      one_tool_embedded_def empty_memory_def twin_tools_def)

section \<open>Properties of \<^verbatim>\<open>uninstall_plugin\<close>\<close>

lemma basename_normpath_core:
  "basename (normpath ''cat/mad_hatter/core_plugin/'') = ''core_plugin''"
  by (simp add: basename_def normpath_def norm_step_def)

lemma core_metadata:
  "get_plugin_metadata example_camel_case descriptor_files ''cat/mad_hatter/core_plugin/'' =
     Inr (example_plugins ! 0)"
  using get_plugin_metadata_dictionary
    [of descriptor_files "''cat/mad_hatter/core_plugin/''" Map.empty example_camel_case]
  by (simp add: descriptor_files_def path_join_def basename_normpath_core
      example_camel_case_def example_plugins_def)

lemma foo_metadata:
  "get_plugin_metadata example_camel_case descriptor_files ''cat/plugins/foo/'' =
     Inr (example_plugins ! 1)"
  using get_plugin_metadata_dictionary
    [of descriptor_files "''cat/plugins/foo/''" Map.empty example_camel_case]
  by (simp add: descriptor_files_def path_join_def basename_normpath_foo
      example_camel_case_def example_plugins_def)

lemma example_plugins_names: "log_plugins example_plugins = Inr ()"
  by (simp add: example_plugins_def)

lemma example_scan:
  "find_plugins example_camel_case (\<lambda>t. t) [] example_file_system = Inr example_registry"
  by (simp add: find_plugins_def example_file_system_def find_plugin_def and_then_def
      core_metadata foo_metadata example_registry_def example_plugins_names)
    (simp add: example_plugins_def)

lemma embed_tools_returns:
  "\<exists>tools' mem'. embed_tools embedder now tools mem = Inr (tools', mem')"
  by (simp add: embed_tools_result)

text \<open>
  Claim C5, as the code has it. \<^verbatim>\<open>uninstall_plugin\<close> does not look at the registry:
  for an id that is the name of a directory entry, it raises \<^verbatim>\<open>FileNotFoundError\<close>
  when the plugin folder has no entry of that name and \<^verbatim>\<open>NotADirectoryError\<close> when
  the entry is a regular file. Otherwise it removes the directory and scans the plugin
  folders again; when the scan returns, it runs \<^verbatim>\<open>embed_tools\<close> on the tools found,
  and the host is left with the new file system, the new registry and the memory after
  that run.
\<close>

theorem uninstall_plugin_by_directory:
  assumes "plain_name plugin_id"
  shows
   "(map_of (plugin_entries (file_system ccat)) plugin_id = None \<longrightarrow>
       uninstall_plugin to_camel_case augment_tool sort_hooks embedder now ccat plugin_id =
         Inl (FileNotFoundError (''cat/plugins/'' @ plugin_id))) \<and>
    (map_of (plugin_entries (file_system ccat)) plugin_id = Some RegularFile \<longrightarrow>
       uninstall_plugin to_camel_case augment_tool sort_hooks embedder now ccat plugin_id =
         Inl (NotADirectoryError (''cat/plugins/'' @ plugin_id))) \<and>
    (\<forall>py_files. map_of (plugin_entries (file_system ccat)) plugin_id =
         Some (Directory py_files) \<longrightarrow>
       (\<exists>fs. rmtree (file_system ccat) (''cat/plugins/'' @ plugin_id) = Inr fs \<and>
          plugin_entries fs =
            filter (\<lambda>(n, e). n \<noteq> plugin_id) (plugin_entries (file_system ccat)) \<and>
          plugin_id \<notin> fst ` set (plugin_entries fs) \<and>
          core_plugin fs = core_plugin (file_system ccat) \<and>
          (\<forall>e. find_plugins to_camel_case augment_tool sort_hooks fs = Inl e \<longrightarrow>
             uninstall_plugin to_camel_case augment_tool sort_hooks embedder now ccat
               plugin_id = Inl e) \<and>
          (\<forall>self. find_plugins to_camel_case augment_tool sort_hooks fs = Inr self \<longrightarrow>
             (\<exists>tools mem.
                embed_tools embedder now (mh_tools self) (memory ccat) = Inr (tools, mem) \<and>
                uninstall_plugin to_camel_case augment_tool sort_hooks embedder now ccat
                  plugin_id =
                  Inr \<lparr>file_system = fs, mad_hatter = self\<lparr>mh_tools := tools\<rparr>,
                       memory = mem\<rparr>))))"
proof (intro conjI impI allI)
  assume "map_of (plugin_entries (file_system ccat)) plugin_id = None"
  then show "uninstall_plugin to_camel_case augment_tool sort_hooks embedder now ccat plugin_id =
      Inl (FileNotFoundError (''cat/plugins/'' @ plugin_id))"
    by (simp add: uninstall_plugin_def rmtree_def get_plugin_path_def and_then_def)
next
  assume "map_of (plugin_entries (file_system ccat)) plugin_id = Some RegularFile"
  then show "uninstall_plugin to_camel_case augment_tool sort_hooks embedder now ccat plugin_id =
      Inl (NotADirectoryError (''cat/plugins/'' @ plugin_id))"
    by (simp add: uninstall_plugin_def rmtree_def get_plugin_path_def and_then_def)
next
  fix py_files
  assume dir: "map_of (plugin_entries (file_system ccat)) plugin_id = Some (Directory py_files)"
  let ?fs = "(file_system ccat)
      \<lparr>plugin_entries :=
         filter (\<lambda>(n, e). n \<noteq> plugin_id) (plugin_entries (file_system ccat)),
       json_files :=
         (\<lambda>file. if take (length ((''cat/plugins/'' @ plugin_id) @ ''/'')) file =
                      (''cat/plugins/'' @ plugin_id) @ ''/''
                 then NoFile else json_files (file_system ccat) file)\<rparr>"
  have removed: "rmtree (file_system ccat) (''cat/plugins/'' @ plugin_id) = Inr ?fs"
    using dir by (simp add: rmtree_def)
  have failing: "uninstall_plugin to_camel_case augment_tool sort_hooks embedder now ccat
        plugin_id = Inl e"
    if "find_plugins to_camel_case augment_tool sort_hooks ?fs = Inl e" for e
    using that removed by (simp add: uninstall_plugin_def get_plugin_path_def and_then_def)
  have returning: "\<exists>tools mem.
        embed_tools embedder now (mh_tools self) (memory ccat) = Inr (tools, mem) \<and>
        uninstall_plugin to_camel_case augment_tool sort_hooks embedder now ccat plugin_id =
          Inr \<lparr>file_system = ?fs, mad_hatter = self\<lparr>mh_tools := tools\<rparr>, memory = mem\<rparr>"
    if scan: "find_plugins to_camel_case augment_tool sort_hooks ?fs = Inr self" for self
  proof -
    obtain tools mem where
      sync: "embed_tools embedder now (mh_tools self) (memory ccat) = Inr (tools, mem)"
      using embed_tools_returns by blast
    have "uninstall_plugin to_camel_case augment_tool sort_hooks embedder now ccat plugin_id =
        Inr \<lparr>file_system = ?fs, mad_hatter = self\<lparr>mh_tools := tools\<rparr>, memory = mem\<rparr>"
      using removed scan sync
      by (simp add: uninstall_plugin_def get_plugin_path_def and_then_def)
    with sync show ?thesis by blast
  qed
  have entries: "plugin_entries ?fs =
      filter (\<lambda>(n, e). n \<noteq> plugin_id) (plugin_entries (file_system ccat))"
    by simp
  have gone: "plugin_id \<notin> fst ` set (plugin_entries ?fs)"
    by auto
  have core: "core_plugin ?fs = core_plugin (file_system ccat)"
    by simp
  show "\<exists>fs. rmtree (file_system ccat) (''cat/plugins/'' @ plugin_id) = Inr fs \<and>
          plugin_entries fs =
            filter (\<lambda>(n, e). n \<noteq> plugin_id) (plugin_entries (file_system ccat)) \<and>
          plugin_id \<notin> fst ` set (plugin_entries fs) \<and>
          core_plugin fs = core_plugin (file_system ccat) \<and>
          (\<forall>e. find_plugins to_camel_case augment_tool sort_hooks fs = Inl e \<longrightarrow>
             uninstall_plugin to_camel_case augment_tool sort_hooks embedder now ccat
               plugin_id = Inl e) \<and>
          (\<forall>self. find_plugins to_camel_case augment_tool sort_hooks fs = Inr self \<longrightarrow>
             (\<exists>tools mem.
                embed_tools embedder now (mh_tools self) (memory ccat) = Inr (tools, mem) \<and>
                uninstall_plugin to_camel_case augment_tool sort_hooks embedder now ccat
                  plugin_id =
                  Inr \<lparr>file_system = fs, mad_hatter = self\<lparr>mh_tools := tools\<rparr>,
                       memory = mem\<rparr>))"
    using removed entries gone core failing returning
    by (intro exI [of _ ?fs]) blast
qed

lemma get_plugin_metadata_no_descriptor:
  assumes "fs (path_join plugin_folder [''plugin.json'']) = NoFile"
  shows "get_plugin_metadata to_camel_case fs plugin_folder =
     Inr [''id'' \<mapsto> JStr (basename (normpath plugin_folder)),
          ''name'' \<mapsto> JStr (to_camel_case (basename (normpath plugin_folder))),
          ''description'' \<mapsto>
             JStr ''Description not found for this plugin. Please create a `plugin.json` in the plugin folder.'',
          ''author_name'' \<mapsto> JStr ''Unknown author'',
          ''author_url'' \<mapsto> JStr '''',
          ''plugin_url'' \<mapsto> JStr '''',
          ''tags'' \<mapsto> JStr ''unknown'',
          ''thumb'' \<mapsto> JStr '''',
          ''version'' \<mapsto> JStr ''0.0.1'']"
  using get_plugin_metadata_dictionary [of fs plugin_folder Map.empty to_camel_case] assms
  by simp

lemma uninstall_plugin_returns:
  assumes "rmtree (file_system ccat) (''cat/plugins/'' @ plugin_id) = Inr fs"
    and "find_plugins to_camel_case augment_tool sort_hooks fs = Inr self"
  shows "uninstall_plugin to_camel_case augment_tool sort_hooks embedder now ccat plugin_id =
     Inr \<lparr>file_system = fs,
          mad_hatter = self\<lparr>mh_tools := map (with_embedding embedder)
            (matched_tools (mh_tools self) (points (memory ccat)))\<rparr>,
          memory =
            \<lparr>points = kept_points (mh_tools self) (points (memory ccat)) @
               created_points embedder now
                 (matched_tools (mh_tools self) (points (memory ccat)))
                 (kept_points (mh_tools self) (points (memory ccat))),
             calls = calls (memory ccat) @ GetAllPoints #
               (if stale_ids (mh_tools self) (points (memory ccat)) = [] then []
                else [Delete (stale_ids (mh_tools self) (points (memory ccat)))]) @
               creation_calls
                 (created_points embedder now
                    (matched_tools (mh_tools self) (points (memory ccat)))
                    (kept_points (mh_tools self) (points (memory ccat))))\<rparr>\<rparr>"
  using assms
  by (simp add: uninstall_plugin_def get_plugin_path_def and_then_def embed_tools_result)

lemma remove_notes:
  "rmtree (file_system example_cat) (''cat/plugins/'' @ ''notes'') = Inr without_notes"
  by (simp add: rmtree_def example_cat_def example_file_system_def without_notes_def
      cong: if_cong)

lemma remove_foo:
  "rmtree (file_system example_cat) (''cat/plugins/'' @ ''foo'') = Inr without_foo"
  by (simp add: rmtree_def example_cat_def example_file_system_def without_foo_def
      cong: if_cong)

lemma scan_without_notes:
  "find_plugins example_camel_case (\<lambda>t. t) [] without_notes = Inr example_registry"
proof -
  have core: "get_plugin_metadata example_camel_case (json_files without_notes)
      ''cat/mad_hatter/core_plugin/'' = Inr (example_plugins ! 0)"
    using get_plugin_metadata_no_descriptor
      [of "json_files without_notes" "''cat/mad_hatter/core_plugin/''" example_camel_case]
    by (simp add: without_notes_def descriptor_files_def path_join_def
        basename_normpath_core example_camel_case_def example_plugins_def)
  have foo: "get_plugin_metadata example_camel_case (json_files without_notes)
      ''cat/plugins/foo/'' = Inr (example_plugins ! 1)"
    using get_plugin_metadata_no_descriptor
      [of "json_files without_notes" "''cat/plugins/foo/''" example_camel_case]
    by (simp add: without_notes_def descriptor_files_def path_join_def
        basename_normpath_foo example_camel_case_def example_plugins_def)
  have entries: "plugin_entries without_notes =
      [(''foo'', Directory
          [Module [\<lparr>name = ''search_web'', description = ''search web'',
                    docstring = ''Search the web.'', embedding = None\<rparr>]]),
       (''README.md'', RegularFile)]"
    and core_files: "core_plugin without_notes =
      [Module [\<lparr>name = ''get_the_time'', description = ''get the time'',
                docstring = ''What time is it?'', embedding = None\<rparr>]]"
    by (simp_all add: without_notes_def)
  show ?thesis
    by (simp add: find_plugins_def entries core_files find_plugin_def and_then_def core foo
        example_registry_def example_plugins_names)
      (simp add: example_plugins_def)
qed

lemma scan_without_foo:
  "find_plugins example_camel_case (\<lambda>t. t) [] without_foo =
     Inr \<lparr>mh_hooks = [],
          mh_tools =
            [\<lparr>name = ''get_the_time'', description = ''get the time'',
              docstring = ''What time is it?'', embedding = None\<rparr>],
          mh_plugins = [example_plugins ! 0]\<rparr>"
proof -
  have core: "get_plugin_metadata example_camel_case (json_files without_foo)
      ''cat/mad_hatter/core_plugin/'' = Inr (example_plugins ! 0)"
    using get_plugin_metadata_no_descriptor
      [of "json_files without_foo" "''cat/mad_hatter/core_plugin/''" example_camel_case]
    by (simp add: without_foo_def descriptor_files_def path_join_def
        basename_normpath_core example_camel_case_def example_plugins_def)
  have entries: "plugin_entries without_foo = [(''notes'', Directory []), (''README.md'', RegularFile)]"
    and core_files: "core_plugin without_foo =
      [Module [\<lparr>name = ''get_the_time'', description = ''get the time'',
                docstring = ''What time is it?'', embedding = None\<rparr>]]"
    by (simp_all add: without_foo_def)
  have names: "log_plugins [example_plugins ! 0] = Inr ()"
    by (simp add: example_plugins_def)
  show ?thesis
    by (simp add: find_plugins_def entries core_files find_plugin_def and_then_def core names
        del: log_plugins.simps)
qed

lemma example_uninstall_notes:
  "raised (uninstall_plugin example_camel_case (\<lambda>t. t) [] length 1700000000 example_cat
     ''notes'') = None"
  using uninstall_plugin_returns [OF remove_notes scan_without_notes, of length 1700000000]
  by (simp add: raised_def)

theorem uninstall_plugin_by_directory_witness:
  "plain_name ''foo'' \<and>
   map_of (plugin_entries (file_system example_cat)) ''foo'' =
     Some (Directory
       [Module [\<lparr>name = ''search_web'', description = ''search web'',
                 docstring = ''Search the web.'', embedding = None\<rparr>]]) \<and>
   (\<exists>ccat'.
      uninstall_plugin example_camel_case (\<lambda>t. t) [] length 1700000000 example_cat ''foo'' =
        Inr ccat' \<and>
      map fst (plugin_entries (file_system ccat')) = [''notes'', ''README.md''] \<and>
      \<not> plugin_exists (mad_hatter ccat') ''foo'' \<and>
      map description (mh_tools (mad_hatter ccat')) = [''get the time''] \<and>
      map embedding (mh_tools (mad_hatter ccat')) = [Some 12] \<and>
      map (\<lambda>p. page_content (payload p)) (points (memory ccat')) = [''get the time'']) \<and>
   plain_name ''ghost'' \<and>
   map_of (plugin_entries (file_system example_cat)) ''ghost'' = None \<and>
   uninstall_plugin example_camel_case (\<lambda>t. t) [] length 1700000000 example_cat ''ghost'' =
     Inl (FileNotFoundError ''cat/plugins/ghost'')"
proof -
  have plain: "plain_name ''foo''" and plain': "plain_name ''ghost''"
    by (simp_all add: plain_name_def)
  have dir: "map_of (plugin_entries (file_system example_cat)) ''foo'' =
     Some (Directory
       [Module [\<lparr>name = ''search_web'', description = ''search web'',
                 docstring = ''Search the web.'', embedding = None\<rparr>]])"
    and none: "map_of (plugin_entries (file_system example_cat)) ''ghost'' = None"
    by (simp_all add: example_cat_def example_file_system_def)
  note foo = uninstall_plugin_by_directory [OF plain,
      where ccat = example_cat and to_camel_case = example_camel_case
        and augment_tool = "\<lambda>t. t" and sort_hooks = "[]" and embedder = length
        and now = 1700000000]
  note ghost = uninstall_plugin_by_directory [OF plain',
      where ccat = example_cat and to_camel_case = example_camel_case
        and augment_tool = "\<lambda>t. t" and sort_hooks = "[]" and embedder = length
        and now = 1700000000]
  from ghost none have missing:
    "uninstall_plugin example_camel_case (\<lambda>t. t) [] length 1700000000 example_cat ''ghost'' =
       Inl (FileNotFoundError ''cat/plugins/ghost'')"
    by simp
  from foo dir obtain fs where
    fs: "rmtree (file_system example_cat) (''cat/plugins/'' @ ''foo'') = Inr fs"
    and returning: "\<forall>self. find_plugins example_camel_case (\<lambda>t. t) [] fs = Inr self \<longrightarrow>
      (\<exists>tools mem.
         embed_tools length 1700000000 (mh_tools self) (memory example_cat) = Inr (tools, mem) \<and>
         uninstall_plugin example_camel_case (\<lambda>t. t) [] length 1700000000 example_cat ''foo'' =
           Inr \<lparr>file_system = fs, mad_hatter = self\<lparr>mh_tools := tools\<rparr>, memory = mem\<rparr>)"
    by blast
  from fs remove_foo have fs_eq: "fs = without_foo"
    by simp
  from returning [rule_format, OF scan_without_foo [folded fs_eq]]
  obtain tools mem where
    sync: "embed_tools length 1700000000
        [\<lparr>name = ''get_the_time'', description = ''get the time'',
          docstring = ''What time is it?'', embedding = None\<rparr>] (memory example_cat) =
        Inr (tools, mem)"
    and result: "uninstall_plugin example_camel_case (\<lambda>t. t) [] length 1700000000 example_cat
        ''foo'' =
        Inr \<lparr>file_system = fs,
             mad_hatter = \<lparr>mh_hooks = [],
               mh_tools = [\<lparr>name = ''get_the_time'', description = ''get the time'',
                  docstring = ''What time is it?'', embedding = None\<rparr>],
               mh_plugins = [example_plugins ! 0]\<rparr>\<lparr>mh_tools := tools\<rparr>,
             memory = mem\<rparr>"
    by auto
  have "embed_tools length 1700000000
        [\<lparr>name = ''get_the_time'', description = ''get the time'',
          docstring = ''What time is it?'', embedding = None\<rparr>] (memory example_cat) =
      Inr ([\<lparr>name = ''get_the_time'', description = ''get the time'',
             docstring = ''What time is it?'', embedding = Some 12\<rparr>],
           \<lparr>points =
              [\<lparr>point_id = 1,
                payload = \<lparr>page_content = ''get the time'',
                  metadata = [''source'' \<mapsto> JStr ''tool'', ''when'' \<mapsto> JNum 1700000000,
                    ''name'' \<mapsto> JStr ''get_the_time'',
                    ''docstring'' \<mapsto> JStr ''What time is it?'']\<rparr>,
                vector = 12\<rparr>],
            calls = [GetAllPoints, AddTexts [''get the time''], Retrieve [1]]\<rparr>)"
    by (simp add: embed_tools_eval example_cat_def empty_memory_def)
  with sync have tools: "tools = [\<lparr>name = ''get_the_time'', description = ''get the time'',
             docstring = ''What time is it?'', embedding = Some 12\<rparr>]"
    and mem: "map (\<lambda>p. page_content (payload p)) (points mem) = [''get the time'']"
    by auto
  have gone: "\<not> plugin_exists
      (\<lparr>mh_hooks = ([] :: unit list),
        mh_tools = [\<lparr>name = ''get_the_time'', description = ''get the time'',
           docstring = ''What time is it?'', embedding = None :: nat option\<rparr>],
        mh_plugins = [example_plugins ! 0]\<rparr>\<lparr>mh_tools := tools\<rparr>) ''foo''"
    by (simp add: plugin_exists_def example_plugins_def)
  have entries: "map fst (plugin_entries fs) = [''notes'', ''README.md'']"
    by (simp add: fs_eq without_foo_def)
  show ?thesis
    using plain plain' dir none missing result tools mem gone entries
    by simp
qed

theorem uninstall_plugin_by_directory_counterexample:
  "find_plugins example_camel_case (\<lambda>t. t) [] (file_system example_cat) =
     Inr (mad_hatter example_cat) \<and>
   \<not> plugin_exists (mad_hatter example_cat) ''notes'' \<and>
   raised (uninstall_plugin example_camel_case (\<lambda>t. t) [] length 1700000000 example_cat
     ''notes'') = None \<and>
   plugin_exists (mad_hatter example_cat) ''core_plugin'' \<and>
   raised (uninstall_plugin example_camel_case (\<lambda>t. t) [] length 1700000000 example_cat
     ''core_plugin'') = Some (FileNotFoundError ''cat/plugins/core_plugin'')"
proof -
  have scan: "find_plugins example_camel_case (\<lambda>t. t) [] (file_system example_cat) =
      Inr (mad_hatter example_cat)"
    by (simp add: example_cat_def example_scan)
  have absent: "\<not> plugin_exists (mad_hatter example_cat) ''notes''"
    by (simp add: plugin_exists_def example_cat_def example_registry_def example_plugins_def)
  have present: "plugin_exists (mad_hatter example_cat) ''core_plugin''"
    by (simp add: plugin_exists_def example_cat_def example_registry_def example_plugins_def)
  have core: "raised (uninstall_plugin example_camel_case (\<lambda>t. t) [] length 1700000000
      example_cat ''core_plugin'') = Some (FileNotFoundError ''cat/plugins/core_plugin'')"
    by (simp add: raised_def uninstall_plugin_def get_plugin_path_def rmtree_def
        example_cat_def example_file_system_def and_then_def)
  from scan absent example_uninstall_notes present core show ?thesis by blast
qed

end
